theory Spec2Isabelle
  imports Main "HOL-Library.Char_ord" "HOL-Library.List_Lexorder"
begin

section \<open>CloudAuth: the account, session and login-history logic of webapp/main.py\<close>

text \<open>
  The program is a FastAPI application over a MySQL/MariaDB database. The embedding keeps
  the database as an explicit state that every store function receives and returns:
  the two tables as lists of rows in insertion order, their AUTO_INCREMENT counters, the
  server clock that fills the \<open>DEFAULT CURRENT_TIMESTAMP\<close> columns, and whether the
  connection pool hands out a connection (\<open>get_connection\<close> raises HTTP 500 when it does
  not). An \<open>HTTPException\<close> is a value: a store function returns
  \<open>(Inl exception, state)\<close> or \<open>(Inr result, state)\<close>; the one function that
  can end in another exception, \<open>update_user_record\<close>, returns an \<open>exception\<close>.

  Strings are Python strings over the code points below 256; \<open>=\<close> on user names is
  exact (the specification calls user names case-sensitive). \<open>hashlib.sha256\<close> is a
  library function: every definition that hashes takes the hash as the parameter
  \<open>hash_password\<close>, so the theorems hold for every hash function.
\<close>

subsection \<open>Rows, database state, exceptions\<close>

type_synonym timestamp = string

record user =
  u_id :: int
  u_username :: string
  u_password_hash :: string
  u_is_admin :: bool
  u_created_at :: timestamp

record login_event =
  e_id :: int
  e_username :: string
  e_logged_in_at :: timestamp

record db =
  users_table :: "user list"
  users_auto_increment :: int
  login_events_table :: "login_event list"
  login_events_auto_increment :: int
  current_timestamp :: timestamp
  pool_available :: bool

datatype http_exception = HTTPException (status_code: nat) (detail: string)

type_synonym 'a outcome = "(http_exception + 'a) \<times> db"

definition SESSION_COOKIE :: string where
  "SESSION_COOKIE = ''session_user''"

subsection \<open>Library functions the program calls\<close>

text \<open>\<open>str.strip()\<close>: the white space of Python among the code points below 256.\<close>

definition is_space :: "char \<Rightarrow> bool" where
  "is_space c = (of_char c \<in> {9, 10, 11, 12, 13, 28, 29, 30, 31, 32, 133, 160 :: nat})"

definition strip :: "string \<Rightarrow> string" where
  "strip v = rev (dropWhile is_space (rev (dropWhile is_space v)))"

text \<open>\<open>str.replace(old, new)\<close> for one-character \<open>old\<close> and \<open>new\<close>.\<close>

definition replace_char :: "char \<Rightarrow> char \<Rightarrow> string \<Rightarrow> string" where
  "replace_char old new v = map (\<lambda>c. if c = old then new else c) v"

text \<open>
  \<open>datetime.fromisoformat\<close>, after the grammar its documentation gives for Python 3.7 to
  3.10, \<open>YYYY-MM-DD[*HH[:MM[:SS[.fff[fff]]]][+HH:MM[:SS[.ffffff]]]]\<close>, where \<open>*\<close> is any
  one character, with the range checks of the \<open>datetime\<close> constructor. \<open>None\<close> is
  \<open>ValueError\<close>. The UTC offset is parsed and checked; \<open>strftime\<close> below does not
  print it.
\<close>

record datetime =
  year :: nat
  month :: nat
  day :: nat
  hour :: nat
  minute :: nat
  second :: nat
  microsecond :: nat

definition is_digit :: "char \<Rightarrow> bool" where
  "is_digit c = (48 \<le> (of_char c :: nat) \<and> (of_char c :: nat) \<le> 57)"

definition parse_digits :: "string \<Rightarrow> nat option" where
  "parse_digits v =
     (if v \<noteq> [] \<and> list_all is_digit v
      then Some (foldl (\<lambda>a c. 10 * a + (of_char c - 48)) 0 v)
      else None)"

definition is_leap :: "nat \<Rightarrow> bool" where
  "is_leap y = (y mod 4 = 0 \<and> (y mod 100 \<noteq> 0 \<or> y mod 400 = 0))"

definition days_in_month :: "nat \<Rightarrow> nat \<Rightarrow> nat" where
  "days_in_month y m =
     (if m = 2 then (if is_leap y then 29 else 28)
      else if m \<in> {4, 6, 9, 11} then 30 else 31)"

text \<open>\<open>HH[:MM[:SS[.fff[fff]]]]\<close> as (hour, minute, second, microsecond).\<close>

definition parse_two :: "string \<Rightarrow> nat option" where
  "parse_two v = (if length v < 2 then None else parse_digits (take 2 v))"

definition parse_fraction :: "string \<Rightarrow> nat option" where
  "parse_fraction v =
     (if length v = 3 then map_option (\<lambda>n. n * 1000) (parse_digits v)
      else if length v = 6 then parse_digits v
      else None)"

definition parse_hh_mm_ss_ff :: "string \<Rightarrow> (nat \<times> nat \<times> nat \<times> nat) option" where
  "parse_hh_mm_ss_ff v =
     (case parse_two v of
        None \<Rightarrow> None
      | Some h \<Rightarrow>
          if length v = 2 then Some (h, 0, 0, 0)
          else if v ! 2 \<noteq> CHR '':'' then None
          else
            (case parse_two (drop 3 v) of
               None \<Rightarrow> None
             | Some m \<Rightarrow>
                 if length v = 5 then Some (h, m, 0, 0)
                 else if v ! 5 \<noteq> CHR '':'' then None
                 else
                   (case parse_two (drop 6 v) of
                      None \<Rightarrow> None
                    | Some s \<Rightarrow>
                        if length v = 8 then Some (h, m, s, 0)
                        else if v ! 8 \<noteq> CHR ''.'' then None
                        else map_option (\<lambda>f. (h, m, s, f)) (parse_fraction (drop 9 v)))))"

definition is_sign :: "char \<Rightarrow> bool" where
  "is_sign c = (c = CHR ''+'' \<or> c = CHR ''-'')"

definition valid_time :: "nat \<times> nat \<times> nat \<times> nat \<Rightarrow> bool" where
  "valid_time t = (case t of (h, m, s, f) \<Rightarrow> h < 24 \<and> m < 60 \<and> s < 60 \<and> f < 1000000)"

text \<open>The offset \<open>HH:MM\<close>, \<open>HH:MM:SS\<close> or \<open>HH:MM:SS.ffffff\<close>, strictly inside 24 hours.\<close>

definition valid_offset :: "string \<Rightarrow> bool" where
  "valid_offset v =
     (length v \<in> {5, 8, 15} \<and>
      (case parse_hh_mm_ss_ff v of
         None \<Rightarrow> False
       | Some (h, m, s, f) \<Rightarrow> ((h * 60 + m) * 60 + s) * 1000000 + f < 86400000000))"

definition parse_isoformat_time :: "string \<Rightarrow> (nat \<times> nat \<times> nat \<times> nat) option" where
  "parse_isoformat_time v =
     (let timestr = takeWhile (\<lambda>c. \<not> is_sign c) v;
          tzstr = drop (Suc (length timestr)) v
      in if length timestr < length v \<and> \<not> valid_offset tzstr then None
         else parse_hh_mm_ss_ff timestr)"

definition parse_isoformat_date :: "string \<Rightarrow> (nat \<times> nat \<times> nat) option" where
  "parse_isoformat_date v =
     (if length v \<noteq> 10 \<or> v ! 4 \<noteq> CHR ''-'' \<or> v ! 7 \<noteq> CHR ''-'' then None
      else
        (case (parse_digits (take 4 v), parse_digits (take 2 (drop 5 v)),
               parse_digits (take 2 (drop 8 v))) of
           (Some y, Some m, Some d) \<Rightarrow> Some (y, m, d)
         | _ \<Rightarrow> None))"

definition fromisoformat :: "string \<Rightarrow> datetime option" where
  "fromisoformat v =
     (case parse_isoformat_date (take 10 v) of
        None \<Rightarrow> None
      | Some (y, m, d) \<Rightarrow>
          (case (if length v = 10 then Some (0, 0, 0, 0)
                 else parse_isoformat_time (drop 11 v)) of
             None \<Rightarrow> None
           | Some t \<Rightarrow>
               if 1 \<le> y \<and> 1 \<le> m \<and> m \<le> 12 \<and> 1 \<le> d \<and> d \<le> days_in_month y m \<and> valid_time t
               then (case t of (h, mi, s, f) \<Rightarrow>
                       Some \<lparr>year = y, month = m, day = d, hour = h, minute = mi,
                             second = s, microsecond = f\<rparr>)
               else None))"

text \<open>\<open>strftime("%Y-%m-%d %H:%M:%S")\<close>, every field zero-padded to its width.\<close>

definition digit_char :: "nat \<Rightarrow> char" where
  "digit_char n = ''0123456789'' ! (n mod 10)"

definition pad2 :: "nat \<Rightarrow> string" where
  "pad2 n = [digit_char (n div 10), digit_char n]"

definition pad4 :: "nat \<Rightarrow> string" where
  "pad4 n = [digit_char (n div 1000), digit_char (n div 100), digit_char (n div 10), digit_char n]"

definition strftime :: "datetime \<Rightarrow> string" where
  "strftime dt =
     pad4 (year dt) @ ''-'' @ pad2 (month dt) @ ''-'' @ pad2 (day dt) @ '' '' @
     pad2 (hour dt) @ '':'' @ pad2 (minute dt) @ '':'' @ pad2 (second dt)"

text \<open>
  \<open>urllib.parse.quote\<close> with its default \<open>safe = "/"\<close>: letters, digits and \<open>_.-~/\<close>
  are kept, every other character becomes \<open>%XX\<close> for each byte of its UTF-8 encoding.
\<close>

definition always_safe :: "char \<Rightarrow> bool" where
  "always_safe c =
     (c \<in> set ''ABCDEFGHIJKLMNOPQRSTUVWXYZabcdefghijklmnopqrstuvwxyz0123456789_.-~'')"

definition utf8_bytes :: "char \<Rightarrow> nat list" where
  "utf8_bytes c =
     (let n = of_char c in if n < 128 then [n] else [192 + n div 64, 128 + n mod 64])"

definition hex_digit :: "nat \<Rightarrow> char" where
  "hex_digit n = ''0123456789ABCDEF'' ! (n mod 16)"

definition quote :: "string \<Rightarrow> string" where
  "quote v =
     concat (map (\<lambda>c. if always_safe c \<or> c = CHR ''/'' then [c]
                       else concat (map (\<lambda>b. [CHR ''%'', hex_digit (b div 16), hex_digit b])
                                        (utf8_bytes c))) v)"

subsection \<open>Connections\<close>

text \<open>
  \<open>get_connection\<close>: the pool's connection, or HTTP 500 \<open>Database unavailable.\<close>.
  Beyond that the server executes every statement; the only statement the model lets fail
  is one that breaks the UNIQUE constraint on \<open>users.username\<close>.
\<close>

definition get_connection :: "db \<Rightarrow> http_exception + unit" where
  "get_connection s =
     (if pool_available s then Inr () else Inl (HTTPException 500 ''Database unavailable.''))"

subsection \<open>User store\<close>

text \<open>
  Modelled from the spec: the DDL of table \<open>users\<close> is not in the repository. The
  specification gives the schema \<open>users(id, username UNIQUE, password_hash, is_admin,
  created_at)\<close> with \<open>id\<close> a surrogate key assigned by the store; \<open>username_unique\<close>
  is the UNIQUE constraint, which an INSERT or UPDATE that would break it violates with
  \<open>IntegrityError\<close>.
\<close>

definition username_unique :: "user list \<Rightarrow> bool" where
  "username_unique rows = distinct (map u_username rows)"

text \<open>\<open>SELECT ... FROM users WHERE username=%s\<close>, \<open>fetchone()\<close>: the first matching row.\<close>

definition get_user :: "db \<Rightarrow> string \<Rightarrow> http_exception + user option" where
  "get_user s username =
     (case get_connection s of
        Inl exc \<Rightarrow> Inl exc
      | Inr _ \<Rightarrow> Inr (find (\<lambda>row. u_username row = username) (users_table s)))"

text \<open>\<open>SELECT COUNT(*) FROM users WHERE is_admin=1\<close>.\<close>

definition admin_total :: "user list \<Rightarrow> int" where
  "admin_total rows = int (length (filter u_is_admin rows))"

definition admin_count :: "db \<Rightarrow> http_exception + int" where
  "admin_count s =
     (case get_connection s of
        Inl exc \<Rightarrow> Inl exc
      | Inr _ \<Rightarrow> Inr (admin_total (users_table s)))"

text \<open>The listings: \<open>ORDER BY created_at DESC\<close> and \<open>ORDER BY id DESC\<close>.\<close>

definition list_users :: "db \<Rightarrow> http_exception + (string \<times> bool \<times> timestamp) list" where
  "list_users s =
     (case get_connection s of
        Inl exc \<Rightarrow> Inl exc
      | Inr _ \<Rightarrow>
          Inr (map (\<lambda>row. (u_username row, u_is_admin row, u_created_at row))
                   (rev (sort_key u_created_at (users_table s)))))"

definition list_users_with_ids ::
  "db \<Rightarrow> http_exception + (int \<times> string \<times> bool \<times> timestamp) list" where
  "list_users_with_ids s =
     (case get_connection s of
        Inl exc \<Rightarrow> Inl exc
      | Inr _ \<Rightarrow>
          Inr (map (\<lambda>row. (u_id row, u_username row, u_is_admin row, u_created_at row))
                   (rev (sort_key u_id (users_table s)))))"

definition create_user ::
  "(string \<Rightarrow> string) \<Rightarrow> db \<Rightarrow> string \<Rightarrow> string \<Rightarrow> bool \<Rightarrow> unit outcome" where
  "create_user hash_password s username password is_admin =
     (case get_connection s of
        Inl exc \<Rightarrow> (Inl exc, s)
      | Inr _ \<Rightarrow>
          (let inserted = users_table s @
                 [\<lparr>u_id = users_auto_increment s, u_username = username,
                   u_password_hash = hash_password password, u_is_admin = is_admin,
                   u_created_at = current_timestamp s\<rparr>]
           in if \<not> username_unique inserted
              then (Inl (HTTPException 400 ''User already exists.''), s)
              else (Inr (), s\<lparr>users_table := inserted,
                               users_auto_increment := users_auto_increment s + 1\<rparr>)))"

definition set_admin_flag :: "db \<Rightarrow> string \<Rightarrow> bool \<Rightarrow> unit outcome" where
  "set_admin_flag s username is_admin =
     (case get_connection s of
        Inl exc \<Rightarrow> (Inl exc, s)
      | Inr _ \<Rightarrow>
          (case find (\<lambda>row. u_username row = username) (users_table s) of
             None \<Rightarrow> (Inl (HTTPException 404 ''User not found.''), s)
           | Some row \<Rightarrow>
               (let current_admin = u_is_admin row
                in if current_admin \<and> \<not> is_admin \<and> admin_total (users_table s) \<le> 1
                   then (Inl (HTTPException 400 ''Cannot remove the last admin.''), s)
                   else if current_admin = is_admin then (Inr (), s)
                   else (Inr (), s\<lparr>users_table :=
                           map (\<lambda>r. if u_username r = username then r\<lparr>u_is_admin := is_admin\<rparr>
                                     else r) (users_table s)\<rparr>))))"

text \<open>
  \<open>update_user_record\<close> opens a dictionary cursor, so each \<open>fetchone()\<close> there is a
  dict from column name to value. Its guard unpacks the row of \<open>SELECT COUNT(*)\<close> as
  if it were a tuple: \<open>(admin_total,) = cur.fetchone()\<close> iterates the dict, which gives
  its keys, and binds the column name; \<open>int(admin_total)\<close> then parses that name. The
  definitions below are these steps; a \<open>ValueError\<close> is no \<open>HTTPException\<close>, none
  of the function's \<open>except\<close> clauses catches it, and nothing has been written when
  it is raised.
\<close>

datatype exception = Http http_exception | ValueError string

definition count_row_dict :: "db \<Rightarrow> (string \<times> int) list" where
  "count_row_dict s = [(''COUNT(*)'', admin_total (users_table s))]"

text \<open>\<open>(x,) = iterable\<close>: the one element, or \<open>ValueError\<close> with its message.\<close>

definition unpack_single :: "'a list \<Rightarrow> string + 'a" where
  "unpack_single xs =
     (case xs of
        [] \<Rightarrow> Inl ''not enough values to unpack (expected 1, got 0)''
      | [x] \<Rightarrow> Inr x
      | _ \<Rightarrow> Inl ''too many values to unpack (expected 1)'')"

text \<open>
  \<open>int(v)\<close> for a string: white space around it is dropped, then an optional sign and
  decimal digits, single underscores allowed between digits.
\<close>

definition valid_int_body :: "string \<Rightarrow> bool" where
  "valid_int_body v =
     (v \<noteq> [] \<and> is_digit (hd v) \<and> is_digit (last v) \<and>
      list_all (\<lambda>c. is_digit c \<or> c = CHR ''_'') v \<and>
      list_all (\<lambda>(c, d). \<not> (c = CHR ''_'' \<and> d = CHR ''_'')) (zip v (tl v)))"

definition invalid_literal :: "string \<Rightarrow> string" where
  "invalid_literal v = ''invalid literal for int() with base 10: '' @ [CHR 0x27] @ v @ [CHR 0x27]"

definition int_of_string :: "string \<Rightarrow> string + int" where
  "int_of_string v =
     (let t = strip v;
          negative = (t \<noteq> [] \<and> hd t = CHR ''-'');
          body = (if t \<noteq> [] \<and> is_sign (hd t) then tl t else t)
      in if \<not> valid_int_body body then Inl (invalid_literal v)
         else
           (case parse_digits (filter (\<lambda>c. c \<noteq> CHR ''_'') body) of
              None \<Rightarrow> Inl (invalid_literal v)
            | Some n \<Rightarrow> Inr (if negative then - int n else int n)))"

text \<open>\<open>if new_password:\<close> is false for \<open>None\<close> and for the empty string.\<close>

definition update_user_record ::
  "(string \<Rightarrow> string) \<Rightarrow> db \<Rightarrow> int \<Rightarrow> string \<Rightarrow> bool \<Rightarrow> string option \<Rightarrow>
     (exception + unit) \<times> db" where
  "update_user_record hash_password s user_id username is_admin new_password =
     (case get_connection s of
        Inl exc \<Rightarrow> (Inl (Http exc), s)
      | Inr _ \<Rightarrow>
          (case find (\<lambda>row. u_id row = user_id) (users_table s) of
             None \<Rightarrow> (Inl (Http (HTTPException 404 ''User not found.'')), s)
           | Some row \<Rightarrow>
               (let current_admin = u_is_admin row;
                    guard =
                      (if current_admin \<and> \<not> is_admin
                       then
                         (case unpack_single (map fst (count_row_dict s)) of
                            Inl message \<Rightarrow> Inl (ValueError message)
                          | Inr unpacked \<Rightarrow>
                              (case int_of_string unpacked of
                                 Inl message \<Rightarrow> Inl (ValueError message)
                               | Inr n \<Rightarrow>
                                   if n \<le> 1
                                   then Inl (Http (HTTPException 400
                                               ''Cannot remove the last admin.''))
                                   else Inr ()))
                       else Inr ())
                in case guard of
                     Inl exc \<Rightarrow> (Inl exc, s)
                   | Inr _ \<Rightarrow>
                       (let updated =
                              map (\<lambda>r. if u_id r = user_id
                                        then r\<lparr>u_username := username, u_is_admin := is_admin,
                                               u_password_hash :=
                                                 (case new_password of
                                                    None \<Rightarrow> u_password_hash r
                                                  | Some p \<Rightarrow>
                                                      if p = [] then u_password_hash r
                                                      else hash_password p)\<rparr>
                                        else r) (users_table s)
                        in if \<not> username_unique updated
                           then (Inl (Http (HTTPException 400 ''Username already exists.'')), s)
                           else (Inr (), s\<lparr>users_table := updated\<rparr>)))))"

subsection \<open>Login event store\<close>

text \<open>
  \<open>ensure_login_events_table\<close> runs \<open>CREATE TABLE IF NOT EXISTS\<close> once per process; a
  missing table and an empty one are the same state here, so all that is left of it is
  the connection it needs.
\<close>

definition ensure_login_events_table :: "db \<Rightarrow> http_exception + unit" where
  "ensure_login_events_table s = get_connection s"

definition record_login_event :: "db \<Rightarrow> string \<Rightarrow> unit outcome" where
  "record_login_event s username =
     (case ensure_login_events_table s of
        Inl exc \<Rightarrow> (Inl exc, s)
      | Inr _ \<Rightarrow>
          (case get_connection s of
             Inl exc \<Rightarrow> (Inl exc, s)
           | Inr _ \<Rightarrow>
               (Inr (), s\<lparr>login_events_table := login_events_table s @
                             [\<lparr>e_id = login_events_auto_increment s, e_username = username,
                               e_logged_in_at = current_timestamp s\<rparr>],
                           login_events_auto_increment := login_events_auto_increment s + 1\<rparr>)))"

text \<open>\<open>ORDER BY logged_in_at DESC LIMIT %s\<close>.\<close>

definition list_login_events :: "db \<Rightarrow> nat \<Rightarrow> http_exception + login_event list" where
  "list_login_events s limit =
     (case ensure_login_events_table s of
        Inl exc \<Rightarrow> Inl exc
      | Inr _ \<Rightarrow>
          (case get_connection s of
             Inl exc \<Rightarrow> Inl exc
           | Inr _ \<Rightarrow> Inr (take limit (rev (sort_key e_logged_in_at (login_events_table s))))))"

definition list_login_events_admin :: "db \<Rightarrow> http_exception + login_event list" where
  "list_login_events_admin s = list_login_events s 200"

definition parse_timestamp :: "string \<Rightarrow> http_exception + timestamp" where
  "parse_timestamp v =
     (let cleaned = strip v;
          cleaned = replace_char CHR ''T'' CHR '' '' cleaned
      in case fromisoformat cleaned of
           None \<Rightarrow> Inl (HTTPException 400 ''Invalid timestamp format.'')
         | Some parsed \<Rightarrow> Inr (strftime parsed))"

definition update_login_event :: "db \<Rightarrow> int \<Rightarrow> string \<Rightarrow> string \<Rightarrow> unit outcome" where
  "update_login_event s event_id username logged_in_at =
     (case ensure_login_events_table s of
        Inl exc \<Rightarrow> (Inl exc, s)
      | Inr _ \<Rightarrow>
          (case get_connection s of
             Inl exc \<Rightarrow> (Inl exc, s)
           | Inr _ \<Rightarrow>
               if find (\<lambda>e. e_id e = event_id) (login_events_table s) = None
               then (Inl (HTTPException 404 ''Login event not found.''), s)
               else
                 (case parse_timestamp logged_in_at of
                    Inl exc \<Rightarrow> (Inl exc, s)
                  | Inr ts \<Rightarrow>
                      (Inr (), s\<lparr>login_events_table :=
                         map (\<lambda>e. if e_id e = event_id
                                   then e\<lparr>e_username := username, e_logged_in_at := ts\<rparr>
                                   else e) (login_events_table s)\<rparr>))))"

definition delete_login_event :: "db \<Rightarrow> int \<Rightarrow> unit outcome" where
  "delete_login_event s event_id =
     (case ensure_login_events_table s of
        Inl exc \<Rightarrow> (Inl exc, s)
      | Inr _ \<Rightarrow>
          (case get_connection s of
             Inl exc \<Rightarrow> (Inl exc, s)
           | Inr _ \<Rightarrow>
               (Inr (), s\<lparr>login_events_table :=
                  filter (\<lambda>e. e_id e \<noteq> event_id) (login_events_table s)\<rparr>)))"

subsection \<open>Requests and responses\<close>

record request =
  cookies :: "string \<rightharpoonup> string"

datatype cookie_action = NoCookie | SetCookie string string

text \<open>
  The two admin pages are kept as the data their templates receive; the markup itself
  carries no logic.
\<close>

datatype page =
    AdminPage "(string \<times> bool \<times> timestamp) list" string string
  | TableEditorPage "(int \<times> string \<times> bool \<times> timestamp) list" "login_event list" string string

text \<open>
  A handler returns a redirect (URL, status code, cookie), a rendered page, or lets an
  \<open>HTTPException\<close> escape, which the framework turns into the error response. Any
  other exception that escapes is answered with HTTP 500 \<open>Internal Server Error\<close>;
  \<open>InternalServerError\<close> keeps the message of the exception.
\<close>

datatype response =
    RedirectResponse string nat cookie_action
  | HTMLResponse page
  | HTTPError http_exception
  | InternalServerError string

definition login_required :: response where
  "login_required = RedirectResponse ''/login?error=Login%20required'' 303 NoCookie"

definition admins_only :: response where
  "admins_only = HTTPError (HTTPException 403 ''Admins only'')"

subsection \<open>Session resolution\<close>

text \<open>\<open>if not username\<close> holds for a missing cookie and for an empty cookie value.\<close>

definition current_user :: "db \<Rightarrow> request \<Rightarrow> http_exception + user option" where
  "current_user s request =
     (case cookies request SESSION_COOKIE of
        None \<Rightarrow> Inr None
      | Some username \<Rightarrow> if username = [] then Inr None else get_user s username)"

subsection \<open>Handlers\<close>

definition login :: "(string \<Rightarrow> string) \<Rightarrow> db \<Rightarrow> string \<Rightarrow> string \<Rightarrow> response \<times> db" where
  "login hash_password s username password =
     (case get_user s username of
        Inl exc \<Rightarrow> (HTTPError exc, s)
      | Inr None \<Rightarrow> (RedirectResponse ''/login?error=Invalid%20credentials'' 303 NoCookie, s)
      | Inr (Some user) \<Rightarrow>
          if u_password_hash user \<noteq> hash_password password
          then (RedirectResponse ''/login?error=Invalid%20credentials'' 303 NoCookie, s)
          else
            (case record_login_event s username of
               (Inl exc, s') \<Rightarrow> (HTTPError exc, s')
             | (Inr _, s') \<Rightarrow>
                 (RedirectResponse ''/'' 303 (SetCookie SESSION_COOKIE username), s')))"

definition register :: "(string \<Rightarrow> string) \<Rightarrow> db \<Rightarrow> string \<Rightarrow> string \<Rightarrow> response \<times> db" where
  "register hash_password s username password =
     (case get_user s username of
        Inl exc \<Rightarrow> (HTTPError exc, s)
      | Inr (Some user) \<Rightarrow>
          (RedirectResponse ''/register?error=User%20already%20exists'' 303 NoCookie, s)
      | Inr None \<Rightarrow>
          (case admin_count s of
             Inl exc \<Rightarrow> (HTTPError exc, s)
           | Inr n \<Rightarrow>
               (let is_first_admin = (n = 0)
                in case create_user hash_password s username password is_first_admin of
                     (Inl exc, s') \<Rightarrow>
                       if status_code exc = 400
                       then (RedirectResponse ''/register?error=User%20already%20exists'' 303
                               NoCookie, s')
                       else (HTTPError exc, s')
                   | (Inr _, s') \<Rightarrow>
                       (RedirectResponse ''/'' 303 (SetCookie SESSION_COOKIE username), s'))))"

definition admin_panel :: "db \<Rightarrow> request \<Rightarrow> string \<Rightarrow> string \<Rightarrow> response \<times> db" where
  "admin_panel s request error success =
     (case current_user s request of
        Inl exc \<Rightarrow> (HTTPError exc, s)
      | Inr None \<Rightarrow> (login_required, s)
      | Inr (Some user) \<Rightarrow>
          if \<not> u_is_admin user then (admins_only, s)
          else
            (case list_users s of
               Inl exc \<Rightarrow> (HTTPError exc, s)
             | Inr rows \<Rightarrow> (HTMLResponse (AdminPage rows error success), s)))"

definition table_editor :: "db \<Rightarrow> request \<Rightarrow> string \<Rightarrow> string \<Rightarrow> response \<times> db" where
  "table_editor s request error success =
     (case current_user s request of
        Inl exc \<Rightarrow> (HTTPError exc, s)
      | Inr None \<Rightarrow> (login_required, s)
      | Inr (Some user) \<Rightarrow>
          if \<not> u_is_admin user then (admins_only, s)
          else
            (case list_users_with_ids s of
               Inl exc \<Rightarrow> (HTTPError exc, s)
             | Inr rows \<Rightarrow>
                 (case list_login_events_admin s of
                    Inl exc \<Rightarrow> (HTTPError exc, s)
                  | Inr events \<Rightarrow>
                      (HTMLResponse (TableEditorPage rows events error success), s))))"

text \<open>The form field \<open>is_admin\<close> is an integer; \<open>bool(int(is_admin))\<close> is \<open>is_admin \<noteq> 0\<close>.\<close>

definition update_admin_role :: "db \<Rightarrow> request \<Rightarrow> string \<Rightarrow> int \<Rightarrow> response \<times> db" where
  "update_admin_role s request username is_admin =
     (case current_user s request of
        Inl exc \<Rightarrow> (HTTPError exc, s)
      | Inr None \<Rightarrow> (login_required, s)
      | Inr (Some user) \<Rightarrow>
          if \<not> u_is_admin user then (admins_only, s)
          else
            (case set_admin_flag s username (is_admin \<noteq> 0) of
               (Inl exc, s') \<Rightarrow>
                 (RedirectResponse (''/admin?error='' @ quote (detail exc)) 303 NoCookie, s')
             | (Inr _, s') \<Rightarrow>
                 (RedirectResponse
                    (''/admin?success='' @
                       quote (''Updated admin access for '' @ username @ ''.''))
                    303 NoCookie, s')))"

text \<open>
  \<open>new_password.strip() or None\<close>. \<open>except HTTPException\<close> catches the
  \<open>HTTPException\<close>s of \<open>update_user_record\<close> only; its \<open>ValueError\<close> escapes.
\<close>

definition admin_edit_user ::
  "(string \<Rightarrow> string) \<Rightarrow> db \<Rightarrow> request \<Rightarrow> int \<Rightarrow> string \<Rightarrow> int \<Rightarrow> string \<Rightarrow> response \<times> db" where
  "admin_edit_user hash_password s request user_id username is_admin new_password =
     (case current_user s request of
        Inl exc \<Rightarrow> (HTTPError exc, s)
      | Inr None \<Rightarrow> (login_required, s)
      | Inr (Some user) \<Rightarrow>
          if \<not> u_is_admin user then (admins_only, s)
          else
            (case update_user_record hash_password s user_id username (is_admin \<noteq> 0)
                    (if strip new_password = [] then None else Some (strip new_password)) of
               (Inl (Http exc), s') \<Rightarrow>
                 (RedirectResponse (''/admin/editor?error='' @ quote (detail exc)) 303
                    NoCookie, s')
             | (Inl (ValueError message), s') \<Rightarrow> (InternalServerError message, s')
             | (Inr _, s') \<Rightarrow>
                 (RedirectResponse ''/admin/editor?success=User%20updated'' 303 NoCookie, s')))"

definition admin_edit_login_event ::
  "db \<Rightarrow> request \<Rightarrow> int \<Rightarrow> string \<Rightarrow> string \<Rightarrow> response \<times> db" where
  "admin_edit_login_event s request event_id username logged_in_at =
     (case current_user s request of
        Inl exc \<Rightarrow> (HTTPError exc, s)
      | Inr None \<Rightarrow> (login_required, s)
      | Inr (Some user) \<Rightarrow>
          if \<not> u_is_admin user then (admins_only, s)
          else
            (case update_login_event s event_id username logged_in_at of
               (Inl exc, s') \<Rightarrow>
                 (RedirectResponse (''/admin/editor?error='' @ quote (detail exc)) 303
                    NoCookie, s')
             | (Inr _, s') \<Rightarrow>
                 (RedirectResponse ''/admin/editor?success=Login%20event%20updated'' 303
                    NoCookie, s')))"

definition admin_delete_login_event :: "db \<Rightarrow> request \<Rightarrow> int \<Rightarrow> response \<times> db" where
  "admin_delete_login_event s request event_id =
     (case current_user s request of
        Inl exc \<Rightarrow> (HTTPError exc, s)
      | Inr None \<Rightarrow> (login_required, s)
      | Inr (Some user) \<Rightarrow>
          if \<not> u_is_admin user then (admins_only, s)
          else
            (case delete_login_event s event_id of
               (Inl exc, s') \<Rightarrow>
                 (RedirectResponse (''/admin/editor?error='' @ quote (detail exc)) 303
                    NoCookie, s')
             | (Inr _, s') \<Rightarrow>
                 (RedirectResponse ''/admin/editor?success=Login%20event%20deleted'' 303
                    NoCookie, s')))"

subsection \<open>States of the running system\<close>

text \<open>
  The system starts on empty tables. A state is reachable when requests to the handlers
  that write lead to it; between requests the clock and the pool may change.
\<close>

inductive reachable :: "(string \<Rightarrow> string) \<Rightarrow> db \<Rightarrow> bool"
  for hash_password :: "string \<Rightarrow> string" where
  initial: "users_table s = [] \<Longrightarrow> login_events_table s = [] \<Longrightarrow> reachable hash_password s"
| environment: "reachable hash_password s \<Longrightarrow>
     reachable hash_password (s\<lparr>current_timestamp := t, pool_available := b\<rparr>)"
| by_register: "reachable hash_password s \<Longrightarrow>
     reachable hash_password (snd (register hash_password s username password))"
| by_login: "reachable hash_password s \<Longrightarrow>
     reachable hash_password (snd (login hash_password s username password))"
| by_update_admin_role: "reachable hash_password s \<Longrightarrow>
     reachable hash_password (snd (update_admin_role s request username is_admin))"
| by_admin_edit_user: "reachable hash_password s \<Longrightarrow>
     reachable hash_password
       (snd (admin_edit_user hash_password s request user_id username is_admin new_password))"
| by_admin_edit_login_event: "reachable hash_password s \<Longrightarrow>
     reachable hash_password
       (snd (admin_edit_login_event s request event_id username logged_in_at))"
| by_admin_delete_login_event: "reachable hash_password s \<Longrightarrow>
     reachable hash_password (snd (admin_delete_login_event s request event_id))"

text \<open>Sequences of the two store operations that change the admin flag.\<close>

datatype user_op =
    SetAdminFlag string bool
  | UpdateRecord int string bool "string option"

text \<open>The state that one such call leaves, whether it returns or raises.\<close>

fun apply_user_op :: "(string \<Rightarrow> string) \<Rightarrow> db \<Rightarrow> user_op \<Rightarrow> db" where
  "apply_user_op hash_password s (SetAdminFlag username is_admin) =
     snd (set_admin_flag s username is_admin)"
| "apply_user_op hash_password s (UpdateRecord user_id username is_admin new_password) =
     snd (update_user_record hash_password s user_id username is_admin new_password)"

fun run_user_ops :: "(string \<Rightarrow> string) \<Rightarrow> db \<Rightarrow> user_op list \<Rightarrow> db" where
  "run_user_ops hash_password s [] = s"
| "run_user_ops hash_password s (operation # ops) =
     run_user_ops hash_password (apply_user_op hash_password s operation) ops"

text \<open>The invariant of the user table: keys and names are unique, ids are below the
  counter, and a table with a row has an admin.\<close>

definition users_inv :: "db \<Rightarrow> bool" where
  "users_inv s =
     (distinct (map u_id (users_table s)) \<and>
      username_unique (users_table s) \<and>
      list_all (\<lambda>i. i < users_auto_increment s) (map u_id (users_table s)) \<and>
      (users_table s = [] \<or> 1 \<le> admin_total (users_table s)))"

text \<open>A sequence of registration requests, each a user name and a password.\<close>

fun run_registrations :: "(string \<Rightarrow> string) \<Rightarrow> db \<Rightarrow> (string \<times> string) list \<Rightarrow> db" where
  "run_registrations hash_password s [] = s"
| "run_registrations hash_password s ((username, password) # rest) =
     run_registrations hash_password (snd (register hash_password s username password)) rest"

text \<open>
  The admin flags of a user table, oldest row first, when only the first row is an admin.
\<close>

definition first_admin_only :: "bool list \<Rightarrow> bool" where
  "first_admin_only flags = (flags = [] \<or> flags = True # replicate (length flags - 1) False)"

subsection \<open>Concrete states for the worked examples\<close>

text \<open>
  The examples run the scenario of the specification: alice registers first, bob second,
  alice logs in. \<open>demo_hash\<close> stands in for the hash there.
\<close>

definition demo_hash :: "string \<Rightarrow> string" where
  "demo_hash password = ''sha256:'' @ password"

definition empty_db :: db where
  "empty_db =
     \<lparr>users_table = [], users_auto_increment = 1,
      login_events_table = [], login_events_auto_increment = 1,
      current_timestamp = ''2024-01-01 09:00:00'', pool_available = True\<rparr>"

definition alice :: user where
  "alice = \<lparr>u_id = 1, u_username = ''alice'', u_password_hash = ''sha256:pw1'',
            u_is_admin = True, u_created_at = ''2024-01-01 09:00:00''\<rparr>"

definition bob :: user where
  "bob = \<lparr>u_id = 2, u_username = ''bob'', u_password_hash = ''sha256:pw2'',
          u_is_admin = False, u_created_at = ''2024-01-01 09:00:00''\<rparr>"

definition demo_db :: db where
  "demo_db =
     \<lparr>users_table = [alice, bob], users_auto_increment = 3,
      login_events_table =
        [\<lparr>e_id = 1, e_username = ''alice'', e_logged_in_at = ''2024-01-01 09:00:00''\<rparr>],
      login_events_auto_increment = 2,
      current_timestamp = ''2024-01-01 09:00:00'', pool_available = True\<rparr>"

definition request_of :: "string \<Rightarrow> request" where
  "request_of v = \<lparr>cookies = [SESSION_COOKIE \<mapsto> v]\<rparr>"

definition anonymous_request :: request where
  "anonymous_request = \<lparr>cookies = Map.empty\<rparr>"

text \<open>A user table whose only row has the empty user name.\<close>

definition nameless_db :: db where
  "nameless_db =
     \<lparr>users_table =
        [\<lparr>u_id = 1, u_username = [], u_password_hash = ''sha256:pw'', u_is_admin = True,
          u_created_at = ''2024-01-01 09:00:00''\<rparr>],
      users_auto_increment = 2,
      login_events_table = [], login_events_auto_increment = 1,
      current_timestamp = ''2024-01-01 09:00:00'', pool_available = True\<rparr>"

section \<open>Auxiliary facts\<close>

subsection \<open>Lists of rows\<close>

lemma find_Some_mem: "find P xs = Some x \<Longrightarrow> x \<in> set xs \<and> P x"
  by (induction xs) (auto split: if_splits)

lemma find_key_distinct:
  "distinct (map f xs) \<Longrightarrow> x \<in> set xs \<Longrightarrow> find (\<lambda>r. f r = f x) xs = Some x"
  by (induction xs) (auto simp: image_iff)

lemma admin_total_nonneg: "0 \<le> admin_total rows"
  by (simp add: admin_total_def)

lemma admin_total_Cons:
  "admin_total (r # rows) = (if u_is_admin r then 1 else 0) + admin_total rows"
  by (simp add: admin_total_def)

lemma admin_total_append:
  "admin_total (xs @ ys) = admin_total xs + admin_total ys"
  by (simp add: admin_total_def)

lemma admin_total_update_other:
  "k \<notin> f ` set rows \<Longrightarrow> map (\<lambda>r. if f r = k then g r else r) rows = rows"
  by (induction rows) auto

lemma admin_total_update:
  "distinct (map f rows) \<Longrightarrow> find (\<lambda>r. f r = k) rows = Some row \<Longrightarrow>
   admin_total (map (\<lambda>r. if f r = k then g r else r) rows) =
     admin_total rows - (if u_is_admin row then 1 else 0) + (if u_is_admin (g row) then 1 else 0)"
proof (induction rows)
  case Nil
  then show ?case by simp
next
  case (Cons r rows)
  show ?case
  proof (cases "f r = k")
    case True
    with Cons.prems have "k \<notin> f ` set rows" and "row = r" by auto
    then show ?thesis
      using True by (simp add: admin_total_Cons admin_total_update_other)
  next
    case False
    with Cons show ?thesis by (simp add: admin_total_Cons)
  qed
qed

lemma map_key_update:
  "(\<And>r. f (g r) = f r) \<Longrightarrow> map f (map (\<lambda>r. if P r then g r else r) rows) = map f rows"
  by (induction rows) auto

lemma users_inv_update_table:
  assumes "users_inv s"
    and "map u_id new = map u_id (users_table s)"
    and "username_unique new"
    and "1 \<le> admin_total new"
  shows "users_inv (s\<lparr>users_table := new\<rparr>)"
proof -
  have "distinct (map u_id new)"
    using assms(1,2) by (simp add: users_inv_def)
  moreover have "list_all (\<lambda>i. i < users_auto_increment s) (map u_id new)"
    using assms(1,2) by (simp add: users_inv_def)
  ultimately show ?thesis
    using assms(3,4) by (simp add: users_inv_def)
qed

lemma users_inv_set_admin_flag:
  assumes "users_inv s"
  shows "users_inv (snd (set_admin_flag s username is_admin))"
proof (cases "pool_available s")
  case False
  with assms show ?thesis by (simp add: set_admin_flag_def get_connection_def)
next
  case up: True
  show ?thesis
  proof (cases "find (\<lambda>row. u_username row = username) (users_table s)")
    case None
    with assms up show ?thesis by (simp add: set_admin_flag_def get_connection_def)
  next
    case (Some row)
    define new where
      "new = map (\<lambda>r. if u_username r = username then r\<lparr>u_is_admin := is_admin\<rparr> else r) (users_table s)"
    have d: "distinct (map u_username (users_table s))"
      using assms by (simp add: users_inv_def username_unique_def)
    have tot: "admin_total new =
        admin_total (users_table s) - (if u_is_admin row then 1 else 0) + (if is_admin then 1 else 0)"
      unfolding new_def
      using admin_total_update [OF d Some, of "\<lambda>r. r\<lparr>u_is_admin := is_admin\<rparr>"] by simp
    have ids: "map u_id new = map u_id (users_table s)"
      unfolding new_def by (rule map_key_update) simp
    have names: "map u_username new = map u_username (users_table s)"
      unfolding new_def by (rule map_key_update) simp
    have uniq: "username_unique new"
      using d names by (simp add: username_unique_def)
    have keep: "users_inv (s\<lparr>users_table := new\<rparr>)"
      if "\<not> (u_is_admin row \<and> \<not> is_admin \<and> admin_total (users_table s) \<le> 1)"
         "u_is_admin row \<noteq> is_admin"
    proof (rule users_inv_update_table [OF assms ids uniq])
      show "1 \<le> admin_total new"
        using that tot admin_total_nonneg [of "users_table s"] by (auto split: if_splits)
    qed
    show ?thesis
      using assms up Some keep
      by (auto simp: set_admin_flag_def get_connection_def Let_def new_def)
  qed
qed

lemma update_user_record_raises:
  assumes "pool_available s" and "find (\<lambda>row. u_id row = user_id) (users_table s) = Some row"
    and "u_is_admin row"
  shows "update_user_record hash_password s user_id username False new_password =
           (Inl (ValueError (invalid_literal ''COUNT(*)'')), s)"
proof -
  have "unpack_single (map fst (count_row_dict s)) = Inr ''COUNT(*)''"
    by (simp add: unpack_single_def count_row_dict_def)
  moreover have "int_of_string ''COUNT(*)'' = Inl (invalid_literal ''COUNT(*)'')"
    by (simp add: int_of_string_def strip_def is_space_def is_sign_def valid_int_body_def
          is_digit_def)
  ultimately show ?thesis
    using assms by (simp add: update_user_record_def get_connection_def)
qed

lemma update_user_record_state:
  "snd (update_user_record hash_password s user_id username is_admin new_password) = s \<or>
   (\<exists>row. find (\<lambda>row. u_id row = user_id) (users_table s) = Some row \<and>
      (u_is_admin row \<longrightarrow> is_admin) \<and>
      snd (update_user_record hash_password s user_id username is_admin new_password) =
        s\<lparr>users_table :=
            map (\<lambda>r. if u_id r = user_id
                      then r\<lparr>u_username := username, u_is_admin := is_admin,
                             u_password_hash :=
                               (case new_password of
                                  None \<Rightarrow> u_password_hash r
                                | Some p \<Rightarrow> if p = [] then u_password_hash r
                                            else hash_password p)\<rparr>
                      else r) (users_table s)\<rparr> \<and>
      username_unique (users_table
        (snd (update_user_record hash_password s user_id username is_admin new_password))))"
proof (cases "pool_available s")
  case False
  then show ?thesis by (simp add: update_user_record_def get_connection_def)
next
  case up: True
  show ?thesis
  proof (cases "find (\<lambda>row. u_id row = user_id) (users_table s)")
    case None
    with up show ?thesis by (simp add: update_user_record_def get_connection_def)
  next
    case (Some row)
    show ?thesis
    proof (cases "u_is_admin row \<and> \<not> is_admin")
      case True
      then have "update_user_record hash_password s user_id username is_admin new_password =
          (Inl (ValueError (invalid_literal ''COUNT(*)'')), s)"
        using update_user_record_raises [OF up Some, of hash_password username new_password]
        by simp
      then show ?thesis by simp
    next
      case False
      with up Some show ?thesis
        by (auto simp: update_user_record_def get_connection_def Let_def)
    qed
  qed
qed

lemma users_inv_update_user_record:
  assumes "users_inv s"
  shows "users_inv (snd (update_user_record hash_password s user_id username is_admin new_password))"
proof -
  define s' where
    "s' = snd (update_user_record hash_password s user_id username is_admin new_password)"
  consider "s' = s"
    | row where "find (\<lambda>row. u_id row = user_id) (users_table s) = Some row"
        "u_is_admin row \<longrightarrow> is_admin"
        "s' = s\<lparr>users_table :=
            map (\<lambda>r. if u_id r = user_id
                      then r\<lparr>u_username := username, u_is_admin := is_admin,
                             u_password_hash :=
                               (case new_password of
                                  None \<Rightarrow> u_password_hash r
                                | Some p \<Rightarrow> if p = [] then u_password_hash r
                                            else hash_password p)\<rparr>
                      else r) (users_table s)\<rparr>"
        "username_unique (users_table s')"
    using update_user_record_state [of hash_password s user_id username is_admin new_password]
    unfolding s'_def by blast
  then have "users_inv s'"
  proof cases
    case 1
    with assms show ?thesis by simp
  next
    case (2 row)
    define g where
      "g = (\<lambda>r::user. r\<lparr>u_username := username, u_is_admin := is_admin,
                    u_password_hash :=
                      (case new_password of
                         None \<Rightarrow> u_password_hash r
                       | Some p \<Rightarrow> if p = [] then u_password_hash r else hash_password p)\<rparr>)"
    define new where "new = map (\<lambda>r. if u_id r = user_id then g r else r) (users_table s)"
    have s': "s' = s\<lparr>users_table := new\<rparr>"
      using 2(3) by (simp add: new_def g_def)
    have d: "distinct (map u_id (users_table s))"
      using assms by (simp add: users_inv_def)
    have tot: "admin_total new =
        admin_total (users_table s) - (if u_is_admin row then 1 else 0) + (if is_admin then 1 else 0)"
      unfolding new_def using admin_total_update [OF d 2(1), of g] by (simp add: g_def)
    have ids: "map u_id new = map u_id (users_table s)"
      unfolding new_def by (rule map_key_update) (simp add: g_def)
    have nonempty: "1 \<le> admin_total (users_table s)"
      using assms find_Some_mem [OF 2(1)] by (auto simp: users_inv_def)
    have uniq: "username_unique new"
      using 2(4) by (simp add: s')
    have "users_inv (s\<lparr>users_table := new\<rparr>)"
    proof (rule users_inv_update_table [OF assms ids uniq])
      show "1 \<le> admin_total new"
        using 2(2) tot nonempty by (auto split: if_splits)
    qed
    then show ?thesis by (simp add: s')
  qed
  then show ?thesis by (simp add: s'_def)
qed

lemma users_inv_create_user:
  assumes "users_inv s" and "is_admin = (admin_total (users_table s) = 0)"
  shows "users_inv (snd (create_user hash_password s username password is_admin))"
proof -
  define row where
    "row = \<lparr>u_id = users_auto_increment s, u_username = username,
            u_password_hash = hash_password password, u_is_admin = is_admin,
            u_created_at = current_timestamp s\<rparr>"
  have fresh: "users_auto_increment s \<notin> u_id ` set (users_table s)"
    using assms(1) by (auto simp: users_inv_def list_all_iff)
  have bound: "list_all (\<lambda>i. i < users_auto_increment s + 1) (map u_id (users_table s))"
    using assms(1) by (auto simp: users_inv_def list_all_iff)
  have "1 \<le> admin_total (users_table s @ [row])"
    using assms admin_total_nonneg [of "users_table s"]
    by (auto simp: admin_total_append admin_total_Cons row_def users_inv_def admin_total_def)
  then have "users_inv (s\<lparr>users_table := users_table s @ [row],
                          users_auto_increment := users_auto_increment s + 1\<rparr>)"
    if "username_unique (users_table s @ [row])"
    using that assms(1) fresh bound by (simp add: users_inv_def row_def)
  then show ?thesis
    using assms(1)
    by (auto simp: create_user_def get_connection_def Let_def row_def)
qed

subsection \<open>What each handler does to the state\<close>

lemma users_inv_cong:
  "users_table s' = users_table s \<Longrightarrow> users_auto_increment s' = users_auto_increment s \<Longrightarrow>
   users_inv s' = users_inv s"
  by (simp add: users_inv_def)

lemma record_login_event_users:
  "users_table (snd (record_login_event s username)) = users_table s \<and>
   users_auto_increment (snd (record_login_event s username)) = users_auto_increment s"
  by (simp add: record_login_event_def ensure_login_events_table_def get_connection_def)

lemma update_login_event_users:
  "users_table (snd (update_login_event s event_id username logged_in_at)) = users_table s \<and>
   users_auto_increment (snd (update_login_event s event_id username logged_in_at)) =
     users_auto_increment s"
  by (simp add: update_login_event_def ensure_login_events_table_def get_connection_def
           split: sum.splits)

lemma delete_login_event_users:
  "users_table (snd (delete_login_event s event_id)) = users_table s \<and>
   users_auto_increment (snd (delete_login_event s event_id)) = users_auto_increment s"
  by (simp add: delete_login_event_def ensure_login_events_table_def get_connection_def)

lemma snd_case_outcome:
  "snd (case p of (Inl e, s') \<Rightarrow> (f e, s') | (Inr x, s') \<Rightarrow> (g x, s')) = snd p"
  by (cases p) (simp split: sum.splits)

lemma snd_case_outcome_if:
  "snd (case p of (Inl e, s') \<Rightarrow> if c e then (f e, s') else (h e, s')
        | (Inr x, s') \<Rightarrow> (g x, s')) = snd p"
  by (cases p) (simp split: sum.splits)

lemma snd_case_exception:
  "snd (case p of (Inl (Http e), s') \<Rightarrow> (f e, s') | (Inl (ValueError m), s') \<Rightarrow> (h m, s')
        | (Inr x, s') \<Rightarrow> (g x, s')) = snd p"
  by (cases p) (simp split: sum.splits exception.splits)

lemma login_state:
  "snd (login hash_password s username password) = s \<or>
   snd (login hash_password s username password) = snd (record_login_event s username)"
  by (simp add: login_def snd_case_outcome split: sum.splits option.splits)

lemma register_state:
  "snd (register hash_password s username password) = s \<or>
   snd (register hash_password s username password) =
     snd (create_user hash_password s username password (admin_total (users_table s) = 0))"
  by (simp add: register_def admin_count_def get_connection_def Let_def snd_case_outcome_if
           split: sum.splits option.splits)

lemma update_admin_role_state:
  "snd (update_admin_role s request username is_admin) = s \<or>
   snd (update_admin_role s request username is_admin) =
     snd (set_admin_flag s username (is_admin \<noteq> 0))"
  by (simp add: update_admin_role_def snd_case_outcome split: sum.splits option.splits)

lemma admin_edit_user_state:
  "snd (admin_edit_user hash_password s request user_id username is_admin new_password) = s \<or>
   snd (admin_edit_user hash_password s request user_id username is_admin new_password) =
     snd (update_user_record hash_password s user_id username (is_admin \<noteq> 0)
            (if strip new_password = [] then None else Some (strip new_password)))"
  by (simp add: admin_edit_user_def snd_case_exception split: sum.splits option.splits)

lemma admin_edit_login_event_state:
  "snd (admin_edit_login_event s request event_id username logged_in_at) = s \<or>
   snd (admin_edit_login_event s request event_id username logged_in_at) =
     snd (update_login_event s event_id username logged_in_at)"
  by (simp add: admin_edit_login_event_def snd_case_outcome split: sum.splits option.splits)

lemma admin_delete_login_event_state:
  "snd (admin_delete_login_event s request event_id) = s \<or>
   snd (admin_delete_login_event s request event_id) = snd (delete_login_event s event_id)"
  by (simp add: admin_delete_login_event_def snd_case_outcome split: sum.splits option.splits)

lemma users_inv_register:
  assumes "users_inv s"
  shows "users_inv (snd (register hash_password s username password))"
proof -
  have "users_inv (snd (create_user hash_password s username password
                         (admin_total (users_table s) = 0)))"
    using assms by (rule users_inv_create_user) simp
  then show ?thesis
    using assms register_state [of hash_password s username password] by auto
qed

lemma users_inv_login:
  assumes "users_inv s"
  shows "users_inv (snd (login hash_password s username password))"
proof -
  have "users_inv (snd (record_login_event s username))"
    using assms users_inv_cong [of "snd (record_login_event s username)" s]
      record_login_event_users [of s username] by simp
  then show ?thesis
    using assms login_state [of hash_password s username password] by auto
qed

lemma users_inv_update_admin_role:
  "users_inv s \<Longrightarrow> users_inv (snd (update_admin_role s request username is_admin))"
  using users_inv_set_admin_flag [of s username "is_admin \<noteq> 0"]
    update_admin_role_state [of s request username is_admin] by auto

lemma users_inv_admin_edit_user:
  "users_inv s \<Longrightarrow>
   users_inv (snd (admin_edit_user hash_password s request user_id username is_admin new_password))"
  using users_inv_update_user_record [of s hash_password user_id username "is_admin \<noteq> 0"
      "if strip new_password = [] then None else Some (strip new_password)"]
    admin_edit_user_state [of hash_password s request user_id username is_admin new_password]
  by auto

lemma users_inv_admin_edit_login_event:
  "users_inv s \<Longrightarrow>
   users_inv (snd (admin_edit_login_event s request event_id username logged_in_at))"
  using users_inv_cong [of "snd (update_login_event s event_id username logged_in_at)" s]
    update_login_event_users [of s event_id username logged_in_at]
    admin_edit_login_event_state [of s request event_id username logged_in_at]
  by auto

lemma users_inv_admin_delete_login_event:
  "users_inv s \<Longrightarrow> users_inv (snd (admin_delete_login_event s request event_id))"
  using users_inv_cong [of "snd (delete_login_event s event_id)" s]
    delete_login_event_users [of s event_id]
    admin_delete_login_event_state [of s request event_id]
  by auto

lemma reachable_users_inv: "reachable hash_password s \<Longrightarrow> users_inv s"
proof (induction rule: reachable.induct)
  case (initial s)
  then show ?case by (simp add: users_inv_def username_unique_def)
next
  case (environment s t b)
  then show ?case by (simp add: users_inv_def)
next
  case (by_register s username password)
  then show ?case by (simp add: users_inv_register)
next
  case (by_login s username password)
  then show ?case by (simp add: users_inv_login)
next
  case (by_update_admin_role s request username is_admin)
  then show ?case by (simp add: users_inv_update_admin_role)
next
  case (by_admin_edit_user s request user_id username is_admin new_password)
  then show ?case by (simp add: users_inv_admin_edit_user)
next
  case (by_admin_edit_login_event s request event_id username logged_in_at)
  then show ?case by (simp add: users_inv_admin_edit_login_event)
next
  case (by_admin_delete_login_event s request event_id)
  then show ?case by (simp add: users_inv_admin_delete_login_event)
qed

lemma users_inv_run_user_ops:
  "users_inv s \<Longrightarrow> users_inv (run_user_ops hash_password s ops)"
proof (induction ops arbitrary: s)
  case Nil
  then show ?case by simp
next
  case (Cons operation ops)
  have "users_inv (apply_user_op hash_password s operation)"
    using Cons.prems
    by (cases operation) (simp_all add: users_inv_set_admin_flag users_inv_update_user_record)
  then show ?case using Cons.IH by simp
qed

lemma run_user_ops_nonempty:
  "users_table s \<noteq> [] \<Longrightarrow> users_table (run_user_ops hash_password s ops) \<noteq> []"
proof (induction ops arbitrary: s)
  case Nil
  then show ?case by simp
next
  case (Cons operation ops)
  have "users_table (apply_user_op hash_password s operation) \<noteq> []"
  proof (cases operation)
    case (SetAdminFlag username is_admin)
    with Cons.prems show ?thesis
      by (auto simp: set_admin_flag_def get_connection_def Let_def split: option.splits)
  next
    case (UpdateRecord user_id username is_admin new_password)
    with Cons.prems show ?thesis
      using update_user_record_state [of hash_password s user_id username is_admin new_password]
      by auto
  qed
  then show ?case using Cons.IH by simp
qed

subsection \<open>The example state is reachable\<close>

lemmas demo_defs = demo_db_def empty_db_def alice_def bob_def demo_hash_def SESSION_COOKIE_def

lemma demo_db_run:
  "demo_db =
     snd (login demo_hash
            (snd (register demo_hash (snd (register demo_hash empty_db ''alice'' ''pw1''))
                    ''bob'' ''pw2''))
            ''alice'' ''pw1'')"
  by (simp add: demo_defs login_def register_def get_user_def admin_count_def create_user_def
        record_login_event_def ensure_login_events_table_def get_connection_def
        username_unique_def admin_total_def Let_def)

lemma reachable_demo_db: "reachable demo_hash demo_db"
  unfolding demo_db_run
  by (intro reachable.by_login reachable.by_register reachable.initial)
     (simp_all add: empty_db_def)

subsection \<open>Demoting an admin\<close>

lemma sole_admin_set_admin_flag:
  assumes "users_inv s" and "pool_available s" and "row \<in> set (users_table s)"
    and "u_is_admin row" and "admin_total (users_table s) = 1"
  shows "set_admin_flag s (u_username row) False =
           (Inl (HTTPException 400 ''Cannot remove the last admin.''), s)"
proof -
  have "distinct (map u_username (users_table s))"
    using assms(1) by (simp add: users_inv_def username_unique_def)
  then have "find (\<lambda>r. u_username r = u_username row) (users_table s) = Some row"
    using assms(3) by (rule find_key_distinct)
  then show ?thesis
    using assms(2,4,5) by (simp add: set_admin_flag_def get_connection_def)
qed

lemma admin_demotion_by_id_raises:
  assumes "users_inv s" and "pool_available s" and "row \<in> set (users_table s)"
    and "u_is_admin row"
  shows "update_user_record hash_password s (u_id row) username False new_password =
           (Inl (ValueError (invalid_literal ''COUNT(*)'')), s)"
proof -
  have "distinct (map u_id (users_table s))"
    using assms(1) by (simp add: users_inv_def)
  then have "find (\<lambda>r. u_id r = u_id row) (users_table s) = Some row"
    using assms(3) by (rule find_key_distinct)
  then show ?thesis
    using assms(2,4) by (simp add: update_user_record_raises)
qed

subsection \<open>Registration and the first admin\<close>

lemma admin_total_flags:
  "admin_total rows = int (length (filter id (map u_is_admin rows)))"
  by (simp add: admin_total_def filter_map comp_def)

lemma first_admin_only_total:
  "first_admin_only (map u_is_admin rows) \<Longrightarrow> (admin_total rows = 0) = (rows = [])"
proof -
  assume a: "first_admin_only (map u_is_admin rows)"
  show ?thesis
  proof (cases "rows = []")
    case True
    then show ?thesis by (simp add: admin_total_def)
  next
    case False
    with a have "map u_is_admin rows = True # replicate (length rows - 1) False"
      by (simp add: first_admin_only_def)
    then have "admin_total rows = 1"
      by (simp add: admin_total_flags)
    with False show ?thesis by simp
  qed
qed

lemma first_admin_only_snoc:
  assumes "first_admin_only flags"
  shows "first_admin_only (flags @ [flags = []])"
proof (cases "flags = []")
  case True
  then show ?thesis by (simp add: first_admin_only_def)
next
  case False
  define n where "n = length flags - 1"
  have flags: "flags = True # replicate n False"
    using assms False by (simp add: first_admin_only_def n_def)
  have "flags @ [False] = True # replicate (Suc n) False"
    by (subst flags) (simp add: replicate_append_same)
  moreover have "length (flags @ [False]) - 1 = Suc n"
    by (subst flags) simp
  ultimately show ?thesis
    using False by (simp add: first_admin_only_def)
qed

lemma first_admin_only_create_user:
  assumes "first_admin_only (map u_is_admin (users_table s))"
  shows "first_admin_only (map u_is_admin (users_table
           (snd (create_user hash_password s username password
                   (admin_total (users_table s) = 0)))))"
  using assms first_admin_only_snoc [OF assms] first_admin_only_total [OF assms]
  by (simp add: create_user_def get_connection_def Let_def)

lemma first_admin_only_register:
  assumes "first_admin_only (map u_is_admin (users_table s))"
  shows "first_admin_only (map u_is_admin (users_table
           (snd (register hash_password s username password))))"
  using assms first_admin_only_create_user [OF assms, of hash_password username password]
    register_state [of hash_password s username password] by auto

lemma first_admin_only_run_registrations:
  "first_admin_only (map u_is_admin (users_table s)) \<Longrightarrow>
   first_admin_only (map u_is_admin (users_table (run_registrations hash_password s requests)))"
proof (induction requests arbitrary: s)
  case Nil
  then show ?case by simp
next
  case (Cons r requests)
  obtain username password where r: "r = (username, password)" by (cases r)
  show ?case
    using Cons.IH [OF first_admin_only_register [OF Cons.prems, of hash_password username password]]
    by (simp add: r)
qed

lemma reachable_empty_iff_no_admin:
  "reachable hash_password s \<Longrightarrow> (admin_total (users_table s) = 0) = (users_table s = [])"
  using reachable_users_inv [of hash_password s]
  by (auto simp: users_inv_def admin_total_def)

lemma get_user_None_fresh:
  "get_user s username = Inr None \<Longrightarrow>
   pool_available s \<and> username \<notin> u_username ` set (users_table s)"
  by (auto simp: get_user_def get_connection_def find_None_iff split: if_splits)

subsection \<open>The three time stamps of the specification\<close>

lemmas iso_defs = fromisoformat_def parse_isoformat_date_def parse_digits_def is_digit_def
  parse_isoformat_time_def is_sign_def parse_hh_mm_ss_ff_def parse_two_def valid_time_def
  days_in_month_def strftime_def pad2_def pad4_def digit_char_def valid_offset_def
  parse_fraction_def is_leap_def

lemma parse_timestamp_T: "parse_timestamp ''2024-01-05T10:30:00'' = Inr ''2024-01-05 10:30:00''"
  by (simp add: parse_timestamp_def strip_def is_space_def replace_char_def iso_defs)

lemma parse_timestamp_space:
  "parse_timestamp ''2024-01-05 10:30:00'' = Inr ''2024-01-05 10:30:00''"
  by (simp add: parse_timestamp_def strip_def is_space_def replace_char_def iso_defs)

lemma parse_timestamp_bad:
  "parse_timestamp ''not-a-date'' = Inl (HTTPException 400 ''Invalid timestamp format.'')"
  by (simp add: parse_timestamp_def strip_def is_space_def replace_char_def iso_defs)

subsection \<open>The guard of the admin endpoints\<close>

lemma admin_panel_guard:
  "(current_user s request = Inr None \<longrightarrow> admin_panel s request error success = (login_required, s)) \<and>
   (current_user s request = Inr (Some user) \<and> \<not> u_is_admin user \<longrightarrow>
      admin_panel s request error success = (admins_only, s)) \<and>
   (current_user s request = Inr (Some user) \<and> u_is_admin user \<longrightarrow>
      admin_panel s request error success =
        (case list_users s of
           Inl exc \<Rightarrow> (HTTPError exc, s)
         | Inr rows \<Rightarrow> (HTMLResponse (AdminPage rows error success), s)))"
  by (simp add: admin_panel_def)

lemma table_editor_guard:
  "(current_user s request = Inr None \<longrightarrow> table_editor s request error success = (login_required, s)) \<and>
   (current_user s request = Inr (Some user) \<and> \<not> u_is_admin user \<longrightarrow>
      table_editor s request error success = (admins_only, s)) \<and>
   (current_user s request = Inr (Some user) \<and> u_is_admin user \<longrightarrow>
      table_editor s request error success =
        (case list_users_with_ids s of
           Inl exc \<Rightarrow> (HTTPError exc, s)
         | Inr rows \<Rightarrow>
             (case list_login_events_admin s of
                Inl exc \<Rightarrow> (HTTPError exc, s)
              | Inr events \<Rightarrow> (HTMLResponse (TableEditorPage rows events error success), s))))"
  by (simp add: table_editor_def)

lemma get_pages_keep_state:
  "snd (admin_panel s request error success) = s \<and>
   snd (table_editor s request error success) = s"
  by (simp add: admin_panel_def table_editor_def split: sum.splits option.splits)

lemma update_admin_role_guard:
  "(current_user s request = Inr None \<longrightarrow>
      update_admin_role s request username is_admin = (login_required, s)) \<and>
   (current_user s request = Inr (Some user) \<and> \<not> u_is_admin user \<longrightarrow>
      update_admin_role s request username is_admin = (admins_only, s)) \<and>
   (current_user s request = Inr (Some user) \<and> u_is_admin user \<longrightarrow>
      snd (update_admin_role s request username is_admin) =
        snd (set_admin_flag s username (is_admin \<noteq> 0)))"
  by (simp add: update_admin_role_def snd_case_outcome)

lemma admin_edit_user_guard:
  "(current_user s request = Inr None \<longrightarrow>
      admin_edit_user hash_password s request user_id username is_admin new_password =
        (login_required, s)) \<and>
   (current_user s request = Inr (Some user) \<and> \<not> u_is_admin user \<longrightarrow>
      admin_edit_user hash_password s request user_id username is_admin new_password =
        (admins_only, s)) \<and>
   (current_user s request = Inr (Some user) \<and> u_is_admin user \<longrightarrow>
      snd (admin_edit_user hash_password s request user_id username is_admin new_password) =
        snd (update_user_record hash_password s user_id username (is_admin \<noteq> 0)
               (if strip new_password = [] then None else Some (strip new_password))))"
  by (simp add: admin_edit_user_def snd_case_exception)

lemma admin_edit_login_event_guard:
  "(current_user s request = Inr None \<longrightarrow>
      admin_edit_login_event s request event_id username logged_in_at = (login_required, s)) \<and>
   (current_user s request = Inr (Some user) \<and> \<not> u_is_admin user \<longrightarrow>
      admin_edit_login_event s request event_id username logged_in_at = (admins_only, s)) \<and>
   (current_user s request = Inr (Some user) \<and> u_is_admin user \<longrightarrow>
      snd (admin_edit_login_event s request event_id username logged_in_at) =
        snd (update_login_event s event_id username logged_in_at))"
  by (simp add: admin_edit_login_event_def snd_case_outcome)

lemma admin_delete_login_event_guard:
  "(current_user s request = Inr None \<longrightarrow>
      admin_delete_login_event s request event_id = (login_required, s)) \<and>
   (current_user s request = Inr (Some user) \<and> \<not> u_is_admin user \<longrightarrow>
      admin_delete_login_event s request event_id = (admins_only, s)) \<and>
   (current_user s request = Inr (Some user) \<and> u_is_admin user \<longrightarrow>
      snd (admin_delete_login_event s request event_id) =
        snd (delete_login_event s event_id))"
  by (simp add: admin_delete_login_event_def snd_case_outcome)

lemma guard_cases:
  "(\<exists>exc. current_user s request = Inl exc) \<or> current_user s request = Inr None \<or>
   (\<exists>user. current_user s request = Inr (Some user) \<and> \<not> u_is_admin user) \<or>
   (\<exists>admin. current_user s request = Inr (Some admin) \<and> u_is_admin admin)"
  by (cases "current_user s request") (auto simp: option.exhaust)

lemma update_admin_role_needs_admin:
  "snd (update_admin_role s request username is_admin) \<noteq> s \<Longrightarrow>
   \<exists>admin. current_user s request = Inr (Some admin) \<and> u_is_admin admin"
  using guard_cases [of s request] by (auto simp: update_admin_role_def)

lemma admin_edit_user_needs_admin:
  "snd (admin_edit_user hash_password s request user_id username is_admin new_password) \<noteq> s \<Longrightarrow>
   \<exists>admin. current_user s request = Inr (Some admin) \<and> u_is_admin admin"
  using guard_cases [of s request] by (auto simp: admin_edit_user_def)

lemma admin_edit_login_event_needs_admin:
  "snd (admin_edit_login_event s request event_id username logged_in_at) \<noteq> s \<Longrightarrow>
   \<exists>admin. current_user s request = Inr (Some admin) \<and> u_is_admin admin"
  using guard_cases [of s request] by (auto simp: admin_edit_login_event_def)

lemma admin_delete_login_event_needs_admin:
  "snd (admin_delete_login_event s request event_id) \<noteq> s \<Longrightarrow>
   \<exists>admin. current_user s request = Inr (Some admin) \<and> u_is_admin admin"
  using guard_cases [of s request] by (auto simp: admin_delete_login_event_def)

subsection \<open>Unfolding the store on a concrete state\<close>

lemmas store_defs = get_user_def get_connection_def admin_count_def create_user_def
  set_admin_flag_def update_user_record_def record_login_event_def
  ensure_login_events_table_def update_login_event_def delete_login_event_def
  username_unique_def admin_total_def current_user_def request_of_def anonymous_request_def

section \<open>The claims\<close>

text \<open>
  C1, as the code has it. From every state whose user table has a row and satisfies the
  invariant (unique ids and user names, an admin among the rows), every sequence of
  \<open>set_admin_flag\<close> and \<open>update_user_record\<close> calls ends in a state with at least one
  admin. By user name the guard is the one of the claim: \<open>set_admin_flag\<close> on the only
  admin raises HTTP 400 \<open>Cannot remove the last admin.\<close> (the specification's
  InvariantViolation) and leaves the state as it was. By id it is not:
  \<open>update_user_record\<close> reads the count through its dictionary cursor, so every
  demotion of an admin by id, the only admin or not, ends in the \<open>ValueError\<close> of
  \<open>int('COUNT(*)')\<close> with the state as it was, and \<open>admin_edit_user\<close> answers HTTP 500
  where the claim has InvariantViolation.
\<close>

theorem admin_demotion_guards:
  assumes "users_inv s" and "users_table s \<noteq> []"
  shows "1 \<le> admin_total (users_table (run_user_ops hash_password s ops)) \<and>
         (\<forall>row \<in> set (users_table s). pool_available s \<and> u_is_admin row \<longrightarrow>
            (admin_total (users_table s) = 1 \<longrightarrow>
               set_admin_flag s (u_username row) False =
                 (Inl (HTTPException 400 ''Cannot remove the last admin.''), s)) \<and>
            (\<forall>username new_password.
               update_user_record hash_password s (u_id row) username False new_password =
                 (Inl (ValueError (invalid_literal ''COUNT(*)'')), s)) \<and>
            (\<forall>request admin username new_password.
               current_user s request = Inr (Some admin) \<and> u_is_admin admin \<longrightarrow>
                 admin_edit_user hash_password s request (u_id row) username 0 new_password =
                   (InternalServerError (invalid_literal ''COUNT(*)''), s)))"
proof -
  have inv: "users_inv (run_user_ops hash_password s ops)"
    using assms(1) by (rule users_inv_run_user_ops)
  have ne: "users_table (run_user_ops hash_password s ops) \<noteq> []"
    using assms(2) by (rule run_user_ops_nonempty)
  have "1 \<le> admin_total (users_table (run_user_ops hash_password s ops))"
    using inv ne by (simp add: users_inv_def)
  moreover have "set_admin_flag s (u_username row) False =
        (Inl (HTTPException 400 ''Cannot remove the last admin.''), s)"
    if "row \<in> set (users_table s)" "pool_available s" "u_is_admin row"
       "admin_total (users_table s) = 1" for row
    using assms(1) that by (simp add: sole_admin_set_admin_flag)
  moreover have raises: "update_user_record hash_password s (u_id row) username False new_password =
        (Inl (ValueError (invalid_literal ''COUNT(*)'')), s)"
    if "row \<in> set (users_table s)" "pool_available s" "u_is_admin row"
    for row username new_password
    using assms(1) that by (simp add: admin_demotion_by_id_raises)
  moreover have "admin_edit_user hash_password s request (u_id row) username 0 new_password =
        (InternalServerError (invalid_literal ''COUNT(*)''), s)"
    if "row \<in> set (users_table s)" "pool_available s" "u_is_admin row"
       "current_user s request = Inr (Some admin)" "u_is_admin admin"
    for row request admin username new_password
    using that raises [OF that(1-3)] by (simp add: admin_edit_user_def)
  ultimately show ?thesis by blast
qed

theorem admin_demotion_guards_witness:
  "users_inv demo_db \<and> users_table demo_db \<noteq> [] \<and>
   alice \<in> set (users_table demo_db) \<and> pool_available demo_db \<and> u_is_admin alice \<and>
   admin_total (users_table demo_db) = 1 \<and>
   1 \<le> admin_total (users_table (run_user_ops demo_hash demo_db
          [UpdateRecord 1 ''alice'' False None, SetAdminFlag ''alice'' False,
           SetAdminFlag ''bob'' True, SetAdminFlag ''alice'' False])) \<and>
   set_admin_flag demo_db ''alice'' False =
     (Inl (HTTPException 400 ''Cannot remove the last admin.''), demo_db) \<and>
   update_user_record demo_hash demo_db 1 ''alice'' False None =
     (Inl (ValueError (invalid_literal ''COUNT(*)'')), demo_db) \<and>
   current_user demo_db (request_of ''alice'') = Inr (Some alice) \<and>
   admin_edit_user demo_hash demo_db (request_of ''alice'') 1 ''alice'' 0 [] =
     (InternalServerError (invalid_literal ''COUNT(*)''), demo_db)"
proof -
  have inv: "users_inv demo_db"
    using reachable_demo_db by (rule reachable_users_inv)
  have ne: "users_table demo_db \<noteq> []"
    and a: "alice \<in> set (users_table demo_db)"
    and up: "pool_available demo_db"
    and adm: "u_is_admin alice"
    and one: "admin_total (users_table demo_db) = 1"
    and id: "u_id alice = 1" and name: "u_username alice = ''alice''"
    by (simp_all add: demo_db_def alice_def bob_def admin_total_def)
  have cu: "current_user demo_db (request_of ''alice'') = Inr (Some alice)"
    by (simp add: store_defs demo_defs)
  note t = admin_demotion_guards [OF inv ne, of demo_hash]
  have "set_admin_flag demo_db ''alice'' False =
      (Inl (HTTPException 400 ''Cannot remove the last admin.''), demo_db) \<and>
    update_user_record demo_hash demo_db 1 ''alice'' False None =
      (Inl (ValueError (invalid_literal ''COUNT(*)'')), demo_db) \<and>
    admin_edit_user demo_hash demo_db (request_of ''alice'') 1 ''alice'' 0 [] =
      (InternalServerError (invalid_literal ''COUNT(*)''), demo_db)"
    using t [of "[]"] a up adm one cu id name by fastforce
  moreover have "1 \<le> admin_total (users_table (run_user_ops demo_hash demo_db
      [UpdateRecord 1 ''alice'' False None, SetAdminFlag ''alice'' False,
       SetAdminFlag ''bob'' True, SetAdminFlag ''alice'' False]))"
    using t by blast
  ultimately show ?thesis
    using inv ne a up adm one cu by simp
qed

text \<open>
  C2. Registration makes the first user an admin and every later user a non-admin. Run
  from an empty user table, any sequence of registration requests leaves a table in
  which the oldest row is an admin and no other row is. In every state of the running
  system, a registration whose user name is free stores the new row with
  \<open>is_admin\<close> true exactly when the table was empty (the handler tests
  \<open>admin_count() == 0\<close>, which in such a state says the same), sets the session
  cookie and redirects home.
\<close>

theorem register_first_user_admin:
  "(users_table s = [] \<longrightarrow>
      first_admin_only (map u_is_admin (users_table (run_registrations hash_password s requests)))) \<and>
   (reachable hash_password s \<and> get_user s username = Inr None \<longrightarrow>
      register hash_password s username password =
        (RedirectResponse ''/'' 303 (SetCookie SESSION_COOKIE username),
         s\<lparr>users_table := users_table s @
              [\<lparr>u_id = users_auto_increment s, u_username = username,
                u_password_hash = hash_password password,
                u_is_admin = (users_table s = []),
                u_created_at = current_timestamp s\<rparr>],
            users_auto_increment := users_auto_increment s + 1\<rparr>))"
proof (intro conjI impI)
  assume "users_table s = []"
  then have "first_admin_only (map u_is_admin (users_table s))"
    by (simp add: first_admin_only_def)
  then show "first_admin_only
      (map u_is_admin (users_table (run_registrations hash_password s requests)))"
    by (rule first_admin_only_run_registrations)
next
  assume "reachable hash_password s \<and> get_user s username = Inr None"
  then have a: "reachable hash_password s" and g: "get_user s username = Inr None"
    by simp_all
  from g have fresh: "pool_available s" "username \<notin> u_username ` set (users_table s)"
    using get_user_None_fresh by blast+
  have uniq: "distinct (map u_username (users_table s))"
    using a reachable_users_inv [of hash_password s]
    by (simp add: users_inv_def username_unique_def)
  have cnt: "(admin_total (users_table s) = 0) = (users_table s = [])"
    using a by (simp add: reachable_empty_iff_no_admin)
  show "register hash_password s username password =
        (RedirectResponse ''/'' 303 (SetCookie SESSION_COOKIE username),
         s\<lparr>users_table := users_table s @
              [\<lparr>u_id = users_auto_increment s, u_username = username,
                u_password_hash = hash_password password,
                u_is_admin = (users_table s = []),
                u_created_at = current_timestamp s\<rparr>],
            users_auto_increment := users_auto_increment s + 1\<rparr>)"
    using g fresh uniq cnt
    by (simp add: register_def admin_count_def create_user_def get_connection_def
          username_unique_def Let_def)
qed

theorem register_first_user_admin_witness:
  "users_table empty_db = [] \<and>
   first_admin_only (map u_is_admin (users_table
     (run_registrations demo_hash empty_db [(''alice'', ''pw1''), (''bob'', ''pw2'')]))) \<and>
   map u_is_admin (users_table
     (run_registrations demo_hash empty_db [(''alice'', ''pw1''), (''bob'', ''pw2'')])) =
     [True, False] \<and>
   reachable demo_hash empty_db \<and> get_user empty_db ''alice'' = Inr None \<and>
   register demo_hash empty_db ''alice'' ''pw1'' =
     (RedirectResponse ''/'' 303 (SetCookie SESSION_COOKIE ''alice''),
      empty_db\<lparr>users_table := [alice], users_auto_increment := 2\<rparr>) \<and>
   reachable demo_hash demo_db \<and> get_user demo_db ''carol'' = Inr None \<and>
   register demo_hash demo_db ''carol'' ''pw3'' =
     (RedirectResponse ''/'' 303 (SetCookie SESSION_COOKIE ''carol''),
      demo_db\<lparr>users_table := [alice, bob,
                  \<lparr>u_id = 3, u_username = ''carol'', u_password_hash = ''sha256:pw3'',
                    u_is_admin = False, u_created_at = ''2024-01-01 09:00:00''\<rparr>],
               users_auto_increment := 4\<rparr>)"
proof -
  have e: "users_table empty_db = []"
    by (simp add: empty_db_def)
  have re: "reachable demo_hash empty_db"
    by (rule reachable.initial) (simp_all add: empty_db_def)
  have ge: "get_user empty_db ''alice'' = Inr None"
    by (simp add: get_user_def get_connection_def empty_db_def)
  have gd: "get_user demo_db ''carol'' = Inr None"
    by (simp add: get_user_def get_connection_def demo_defs)
  have run: "map u_is_admin (users_table
     (run_registrations demo_hash empty_db [(''alice'', ''pw1''), (''bob'', ''pw2'')])) =
     [True, False]"
    by (simp add: register_def store_defs demo_defs Let_def)
  note t1 = register_first_user_admin [of empty_db demo_hash
      "[(''alice'', ''pw1''), (''bob'', ''pw2'')]" "''alice''" "''pw1''"]
  note t2 = register_first_user_admin [of demo_db demo_hash "[]" "''carol''" "''pw3''"]
  have "first_admin_only (map u_is_admin (users_table
     (run_registrations demo_hash empty_db [(''alice'', ''pw1''), (''bob'', ''pw2'')])))"
    using t1 e by blast
  moreover have "register demo_hash empty_db ''alice'' ''pw1'' =
     (RedirectResponse ''/'' 303 (SetCookie SESSION_COOKIE ''alice''),
      empty_db\<lparr>users_table := [alice], users_auto_increment := 2\<rparr>)"
    using t1 re ge by (simp add: demo_defs)
  moreover have "register demo_hash demo_db ''carol'' ''pw3'' =
     (RedirectResponse ''/'' 303 (SetCookie SESSION_COOKIE ''carol''),
      demo_db\<lparr>users_table := [alice, bob,
                  \<lparr>u_id = 3, u_username = ''carol'', u_password_hash = ''sha256:pw3'',
                    u_is_admin = False, u_created_at = ''2024-01-01 09:00:00''\<rparr>],
               users_auto_increment := 4\<rparr>)"
    using t2 reachable_demo_db gd by (simp add: demo_defs)
  ultimately show ?thesis
    using e re ge gd run reachable_demo_db by simp
qed

text \<open>
  C3. POST /login. When the user exists and the hash of the submitted password is the
  stored hash, exactly one login event for that user name is appended and the redirect
  sets the session cookie to that user name. When the user does not exist or the hashes
  differ, the state is unchanged (no event is added) and the redirect to
  \<open>/login?error=Invalid%20credentials\<close> sets no cookie.
\<close>

theorem login_records_event:
  "(get_user s username = Inr (Some user) \<and> u_password_hash user = hash_password password \<longrightarrow>
      login hash_password s username password =
        (RedirectResponse ''/'' 303 (SetCookie SESSION_COOKIE username),
         s\<lparr>login_events_table := login_events_table s @
              [\<lparr>e_id = login_events_auto_increment s, e_username = username,
                e_logged_in_at = current_timestamp s\<rparr>],
            login_events_auto_increment := login_events_auto_increment s + 1\<rparr>)) \<and>
   (get_user s username = Inr None \<or>
    get_user s username = Inr (Some user) \<and> u_password_hash user \<noteq> hash_password password \<longrightarrow>
      login hash_password s username password =
        (RedirectResponse ''/login?error=Invalid%20credentials'' 303 NoCookie, s))"
  by (auto simp: login_def record_login_event_def ensure_login_events_table_def
        get_user_def get_connection_def split: if_splits)

theorem login_records_event_witness:
  "get_user demo_db ''alice'' = Inr (Some alice) \<and>
   u_password_hash alice = demo_hash ''pw1'' \<and>
   login demo_hash demo_db ''alice'' ''pw1'' =
     (RedirectResponse ''/'' 303 (SetCookie SESSION_COOKIE ''alice''),
      demo_db\<lparr>login_events_table :=
          [\<lparr>e_id = 1, e_username = ''alice'', e_logged_in_at = ''2024-01-01 09:00:00''\<rparr>,
           \<lparr>e_id = 2, e_username = ''alice'', e_logged_in_at = ''2024-01-01 09:00:00''\<rparr>],
        login_events_auto_increment := 3\<rparr>) \<and>
   u_password_hash alice \<noteq> demo_hash ''wrong'' \<and>
   login demo_hash demo_db ''alice'' ''wrong'' =
     (RedirectResponse ''/login?error=Invalid%20credentials'' 303 NoCookie, demo_db) \<and>
   get_user demo_db ''mallory'' = Inr None \<and>
   login demo_hash demo_db ''mallory'' ''pw1'' =
     (RedirectResponse ''/login?error=Invalid%20credentials'' 303 NoCookie, demo_db)"
proof -
  have ga: "get_user demo_db ''alice'' = Inr (Some alice)"
    by (simp add: get_user_def get_connection_def demo_defs)
  have gm: "get_user demo_db ''mallory'' = Inr None"
    by (simp add: get_user_def get_connection_def demo_defs)
  have h: "u_password_hash alice = demo_hash ''pw1''"
    and w: "u_password_hash alice \<noteq> demo_hash ''wrong''"
    by (simp_all add: demo_defs)
  have "login demo_hash demo_db ''alice'' ''pw1'' =
     (RedirectResponse ''/'' 303 (SetCookie SESSION_COOKIE ''alice''),
      demo_db\<lparr>login_events_table :=
          [\<lparr>e_id = 1, e_username = ''alice'', e_logged_in_at = ''2024-01-01 09:00:00''\<rparr>,
           \<lparr>e_id = 2, e_username = ''alice'', e_logged_in_at = ''2024-01-01 09:00:00''\<rparr>],
        login_events_auto_increment := 3\<rparr>)"
    using login_records_event [of demo_db "''alice''" alice demo_hash "''pw1''"] ga h
    by (simp add: demo_db_def)
  moreover have "login demo_hash demo_db ''alice'' ''wrong'' =
     (RedirectResponse ''/login?error=Invalid%20credentials'' 303 NoCookie, demo_db)"
    using login_records_event [of demo_db "''alice''" alice demo_hash "''wrong''"] ga w
    by simp
  moreover have "login demo_hash demo_db ''mallory'' ''pw1'' =
     (RedirectResponse ''/login?error=Invalid%20credentials'' 303 NoCookie, demo_db)"
    using login_records_event [of demo_db "''mallory''" alice demo_hash "''pw1''"] gm
    by simp
  ultimately show ?thesis
    using ga gm h w by simp
qed

text \<open>
  C4. The six admin-only endpoints. With no resolved session user each one answers with
  the redirect to the login page and leaves the state alone; with a resolved user who is
  not an admin each one raises HTTP 403 \<open>Admins only\<close> and leaves the state alone;
  with an admin the two pages show the listings and the four POST handlers leave the
  state that their store operation leaves. A request that changes the state comes from
  an admin.
\<close>

theorem admin_endpoints_guarded:
  "login_required = RedirectResponse ''/login?error=Login%20required'' 303 NoCookie \<and>
   admins_only = HTTPError (HTTPException 403 ''Admins only'') \<and>
   (current_user s request = Inr None \<longrightarrow>
      admin_panel s request error success = (login_required, s) \<and>
      table_editor s request error success = (login_required, s) \<and>
      update_admin_role s request username is_admin = (login_required, s) \<and>
      admin_edit_user hash_password s request user_id username is_admin new_password =
        (login_required, s) \<and>
      admin_edit_login_event s request event_id event_username logged_in_at =
        (login_required, s) \<and>
      admin_delete_login_event s request event_id = (login_required, s)) \<and>
   (current_user s request = Inr (Some user) \<and> \<not> u_is_admin user \<longrightarrow>
      admin_panel s request error success = (admins_only, s) \<and>
      table_editor s request error success = (admins_only, s) \<and>
      update_admin_role s request username is_admin = (admins_only, s) \<and>
      admin_edit_user hash_password s request user_id username is_admin new_password =
        (admins_only, s) \<and>
      admin_edit_login_event s request event_id event_username logged_in_at =
        (admins_only, s) \<and>
      admin_delete_login_event s request event_id = (admins_only, s)) \<and>
   (current_user s request = Inr (Some user) \<and> u_is_admin user \<longrightarrow>
      admin_panel s request error success =
        (case list_users s of
           Inl exc \<Rightarrow> (HTTPError exc, s)
         | Inr rows \<Rightarrow> (HTMLResponse (AdminPage rows error success), s)) \<and>
      table_editor s request error success =
        (case list_users_with_ids s of
           Inl exc \<Rightarrow> (HTTPError exc, s)
         | Inr rows \<Rightarrow>
             (case list_login_events_admin s of
                Inl exc \<Rightarrow> (HTTPError exc, s)
              | Inr events \<Rightarrow> (HTMLResponse (TableEditorPage rows events error success), s))) \<and>
      snd (update_admin_role s request username is_admin) =
        snd (set_admin_flag s username (is_admin \<noteq> 0)) \<and>
      snd (admin_edit_user hash_password s request user_id username is_admin new_password) =
        snd (update_user_record hash_password s user_id username (is_admin \<noteq> 0)
               (if strip new_password = [] then None else Some (strip new_password))) \<and>
      snd (admin_edit_login_event s request event_id event_username logged_in_at) =
        snd (update_login_event s event_id event_username logged_in_at) \<and>
      snd (admin_delete_login_event s request event_id) =
        snd (delete_login_event s event_id)) \<and>
   (snd (admin_panel s request error success) \<noteq> s \<or>
    snd (table_editor s request error success) \<noteq> s \<or>
    snd (update_admin_role s request username is_admin) \<noteq> s \<or>
    snd (admin_edit_user hash_password s request user_id username is_admin new_password) \<noteq> s \<or>
    snd (admin_edit_login_event s request event_id event_username logged_in_at) \<noteq> s \<or>
    snd (admin_delete_login_event s request event_id) \<noteq> s \<longrightarrow>
      (\<exists>admin. current_user s request = Inr (Some admin) \<and> u_is_admin admin))"
proof (intro conjI)
  show "login_required = RedirectResponse ''/login?error=Login%20required'' 303 NoCookie"
    by (simp add: login_required_def)
  show "admins_only = HTTPError (HTTPException 403 ''Admins only'')"
    by (simp add: admins_only_def)
  show "current_user s request = Inr None \<longrightarrow>
      admin_panel s request error success = (login_required, s) \<and>
      table_editor s request error success = (login_required, s) \<and>
      update_admin_role s request username is_admin = (login_required, s) \<and>
      admin_edit_user hash_password s request user_id username is_admin new_password =
        (login_required, s) \<and>
      admin_edit_login_event s request event_id event_username logged_in_at =
        (login_required, s) \<and>
      admin_delete_login_event s request event_id = (login_required, s)"
    by (simp add: admin_panel_def table_editor_def update_admin_role_def admin_edit_user_def
          admin_edit_login_event_def admin_delete_login_event_def)
  show "current_user s request = Inr (Some user) \<and> \<not> u_is_admin user \<longrightarrow>
      admin_panel s request error success = (admins_only, s) \<and>
      table_editor s request error success = (admins_only, s) \<and>
      update_admin_role s request username is_admin = (admins_only, s) \<and>
      admin_edit_user hash_password s request user_id username is_admin new_password =
        (admins_only, s) \<and>
      admin_edit_login_event s request event_id event_username logged_in_at =
        (admins_only, s) \<and>
      admin_delete_login_event s request event_id = (admins_only, s)"
    by (simp add: admin_panel_def table_editor_def update_admin_role_def admin_edit_user_def
          admin_edit_login_event_def admin_delete_login_event_def)
  show "current_user s request = Inr (Some user) \<and> u_is_admin user \<longrightarrow>
      admin_panel s request error success =
        (case list_users s of
           Inl exc \<Rightarrow> (HTTPError exc, s)
         | Inr rows \<Rightarrow> (HTMLResponse (AdminPage rows error success), s)) \<and>
      table_editor s request error success =
        (case list_users_with_ids s of
           Inl exc \<Rightarrow> (HTTPError exc, s)
         | Inr rows \<Rightarrow>
             (case list_login_events_admin s of
                Inl exc \<Rightarrow> (HTTPError exc, s)
              | Inr events \<Rightarrow> (HTMLResponse (TableEditorPage rows events error success), s))) \<and>
      snd (update_admin_role s request username is_admin) =
        snd (set_admin_flag s username (is_admin \<noteq> 0)) \<and>
      snd (admin_edit_user hash_password s request user_id username is_admin new_password) =
        snd (update_user_record hash_password s user_id username (is_admin \<noteq> 0)
               (if strip new_password = [] then None else Some (strip new_password))) \<and>
      snd (admin_edit_login_event s request event_id event_username logged_in_at) =
        snd (update_login_event s event_id event_username logged_in_at) \<and>
      snd (admin_delete_login_event s request event_id) =
        snd (delete_login_event s event_id)"
    using admin_panel_guard [of s request error success user]
      table_editor_guard [of s request error success user]
      update_admin_role_guard [of s request username is_admin user]
      admin_edit_user_guard [of s request hash_password user_id username is_admin new_password user]
      admin_edit_login_event_guard [of s request event_id event_username logged_in_at user]
      admin_delete_login_event_guard [of s request event_id user]
    by blast
  show "snd (admin_panel s request error success) \<noteq> s \<or>
    snd (table_editor s request error success) \<noteq> s \<or>
    snd (update_admin_role s request username is_admin) \<noteq> s \<or>
    snd (admin_edit_user hash_password s request user_id username is_admin new_password) \<noteq> s \<or>
    snd (admin_edit_login_event s request event_id event_username logged_in_at) \<noteq> s \<or>
    snd (admin_delete_login_event s request event_id) \<noteq> s \<longrightarrow>
      (\<exists>admin. current_user s request = Inr (Some admin) \<and> u_is_admin admin)"
    using get_pages_keep_state [of s request error success]
      update_admin_role_needs_admin [of s request username is_admin]
      admin_edit_user_needs_admin [of hash_password s request user_id username is_admin
        new_password]
      admin_edit_login_event_needs_admin [of s request event_id event_username logged_in_at]
      admin_delete_login_event_needs_admin [of s request event_id]
    by blast
qed

theorem admin_endpoints_guarded_witness:
  "current_user demo_db anonymous_request = Inr None \<and>
   admin_panel demo_db anonymous_request [] [] =
     (RedirectResponse ''/login?error=Login%20required'' 303 NoCookie, demo_db) \<and>
   update_admin_role demo_db anonymous_request ''bob'' 1 =
     (RedirectResponse ''/login?error=Login%20required'' 303 NoCookie, demo_db) \<and>
   current_user demo_db (request_of ''bob'') = Inr (Some bob) \<and> \<not> u_is_admin bob \<and>
   table_editor demo_db (request_of ''bob'') [] [] =
     (HTTPError (HTTPException 403 ''Admins only''), demo_db) \<and>
   update_admin_role demo_db (request_of ''bob'') ''bob'' 1 =
     (HTTPError (HTTPException 403 ''Admins only''), demo_db) \<and>
   admin_delete_login_event demo_db (request_of ''bob'') 1 =
     (HTTPError (HTTPException 403 ''Admins only''), demo_db) \<and>
   current_user demo_db (request_of ''alice'') = Inr (Some alice) \<and> u_is_admin alice \<and>
   snd (update_admin_role demo_db (request_of ''alice'') ''bob'' 1) =
     demo_db\<lparr>users_table := [alice, bob\<lparr>u_is_admin := True\<rparr>]\<rparr> \<and>
   snd (admin_delete_login_event demo_db (request_of ''alice'') 1) =
     demo_db\<lparr>login_events_table := []\<rparr>"
proof -
  have c0: "current_user demo_db anonymous_request = Inr None"
    and cb: "current_user demo_db (request_of ''bob'') = Inr (Some bob)"
    and ca: "current_user demo_db (request_of ''alice'') = Inr (Some alice)"
    by (simp_all add: store_defs demo_defs)
  have fb: "\<not> u_is_admin bob" and fa: "u_is_admin alice"
    by (simp_all add: demo_defs)
  have w1: "snd (set_admin_flag demo_db ''bob'' (1 \<noteq> (0::int))) =
      demo_db\<lparr>users_table := [alice, bob\<lparr>u_is_admin := True\<rparr>]\<rparr>"
    by (simp add: set_admin_flag_def get_connection_def admin_total_def demo_defs)
  have w2: "snd (delete_login_event demo_db 1) = demo_db\<lparr>login_events_table := []\<rparr>"
    by (simp add: delete_login_event_def ensure_login_events_table_def get_connection_def
          demo_defs)
  note t0 = admin_endpoints_guarded [where s = demo_db and request = anonymous_request
      and user = bob and username = "''bob''" and is_admin = 1 and event_id = 1
      and error = "[]" and success = "[]" and hash_password = demo_hash and user_id = 1
      and new_password = "[]" and event_username = "[]" and logged_in_at = "[]"]
  note tb = admin_endpoints_guarded [where s = demo_db and request = "request_of ''bob''"
      and user = bob and username = "''bob''" and is_admin = 1 and event_id = 1
      and error = "[]" and success = "[]" and hash_password = demo_hash and user_id = 1
      and new_password = "[]" and event_username = "[]" and logged_in_at = "[]"]
  note ta = admin_endpoints_guarded [where s = demo_db and request = "request_of ''alice''"
      and user = alice and username = "''bob''" and is_admin = 1 and event_id = 1
      and error = "[]" and success = "[]" and hash_password = demo_hash and user_id = 1
      and new_password = "[]" and event_username = "[]" and logged_in_at = "[]"]
  have "admin_panel demo_db anonymous_request [] [] =
      (RedirectResponse ''/login?error=Login%20required'' 303 NoCookie, demo_db) \<and>
    update_admin_role demo_db anonymous_request ''bob'' 1 =
      (RedirectResponse ''/login?error=Login%20required'' 303 NoCookie, demo_db)"
    using t0 c0 by simp
  moreover have "table_editor demo_db (request_of ''bob'') [] [] =
      (HTTPError (HTTPException 403 ''Admins only''), demo_db) \<and>
    update_admin_role demo_db (request_of ''bob'') ''bob'' 1 =
      (HTTPError (HTTPException 403 ''Admins only''), demo_db) \<and>
    admin_delete_login_event demo_db (request_of ''bob'') 1 =
      (HTTPError (HTTPException 403 ''Admins only''), demo_db)"
    using tb cb fb by simp
  moreover have "snd (update_admin_role demo_db (request_of ''alice'') ''bob'' 1) =
      demo_db\<lparr>users_table := [alice, bob\<lparr>u_is_admin := True\<rparr>]\<rparr> \<and>
    snd (admin_delete_login_event demo_db (request_of ''alice'') 1) =
      demo_db\<lparr>login_events_table := []\<rparr>"
    using ta ca fa w1 w2 by simp
  ultimately show ?thesis
    using c0 cb ca fb fa by simp
qed

text \<open>
  C5. \<open>create_user\<close> with a user name that some row already has raises HTTP 400
  \<open>User already exists.\<close> (the specification's Conflict) and leaves the user table
  as it was, in every state in which the database is reachable.
\<close>

theorem create_user_conflict:
  "pool_available s \<Longrightarrow> username \<in> u_username ` set (users_table s) \<Longrightarrow>
   fst (create_user hash_password s username password is_admin) =
     Inl (HTTPException 400 ''User already exists.'') \<and>
   users_table (snd (create_user hash_password s username password is_admin)) = users_table s"
  by (simp add: create_user_def get_connection_def username_unique_def Let_def)

theorem create_user_conflict_witness:
  "pool_available demo_db \<and> ''alice'' \<in> u_username ` set (users_table demo_db) \<and>
   fst (create_user demo_hash demo_db ''alice'' ''other'' False) =
     Inl (HTTPException 400 ''User already exists.'') \<and>
   users_table (snd (create_user demo_hash demo_db ''alice'' ''other'' False)) = [alice, bob]"
proof -
  have up: "pool_available demo_db"
    and ex: "''alice'' \<in> u_username ` set (users_table demo_db)"
    by (simp_all add: demo_defs)
  show ?thesis
    using create_user_conflict [OF up ex, of demo_hash "''other''" False] up ex
    by (simp add: demo_db_def)
qed

text \<open>
  C6. For an existing login event, \<open>update_login_event\<close> with
  \<open>2024-01-05T10:30:00\<close> and with \<open>2024-01-05 10:30:00\<close> has the same outcome:
  both store \<open>2024-01-05 10:30:00\<close>. With \<open>not-a-date\<close> it raises HTTP 400
  \<open>Invalid timestamp format.\<close> (the specification's InvalidInput) and leaves the
  state, so the row, as it was.
\<close>

theorem update_login_event_timestamp:
  "pool_available s \<Longrightarrow> event_id \<in> e_id ` set (login_events_table s) \<Longrightarrow>
   update_login_event s event_id username ''2024-01-05T10:30:00'' =
     (Inr (), s\<lparr>login_events_table :=
        map (\<lambda>e. if e_id e = event_id
                  then e\<lparr>e_username := username, e_logged_in_at := ''2024-01-05 10:30:00''\<rparr>
                  else e) (login_events_table s)\<rparr>) \<and>
   update_login_event s event_id username ''2024-01-05 10:30:00'' =
     update_login_event s event_id username ''2024-01-05T10:30:00'' \<and>
   update_login_event s event_id username ''not-a-date'' =
     (Inl (HTTPException 400 ''Invalid timestamp format.''), s)"
  by (auto simp: update_login_event_def ensure_login_events_table_def get_connection_def
        parse_timestamp_T parse_timestamp_space parse_timestamp_bad find_None_iff)

theorem update_login_event_timestamp_witness:
  "pool_available demo_db \<and> 1 \<in> e_id ` set (login_events_table demo_db) \<and>
   update_login_event demo_db 1 ''alice'' ''2024-01-05T10:30:00'' =
     (Inr (), demo_db\<lparr>login_events_table :=
        [\<lparr>e_id = 1, e_username = ''alice'', e_logged_in_at = ''2024-01-05 10:30:00''\<rparr>]\<rparr>) \<and>
   update_login_event demo_db 1 ''alice'' ''2024-01-05 10:30:00'' =
     update_login_event demo_db 1 ''alice'' ''2024-01-05T10:30:00'' \<and>
   update_login_event demo_db 1 ''alice'' ''not-a-date'' =
     (Inl (HTTPException 400 ''Invalid timestamp format.''), demo_db)"
proof -
  have up: "pool_available demo_db"
    and ex: "1 \<in> e_id ` set (login_events_table demo_db)"
    by (simp_all add: demo_defs)
  show ?thesis
    using update_login_event_timestamp [OF up ex, of "''alice''"] up ex
    by (simp add: demo_db_def)
qed

text \<open>
  C7, as the code has it. Session resolution returns no user when the session cookie is
  missing or its value is empty; for a non-empty value it returns exactly what
  \<open>get_user\<close> returns for that value. So a request whose cookie value is the
  non-empty user name of a row authenticates as that row, with no further check (the
  user names being unique and the database reachable).

  The claim as stated, without the exception for the empty value, fails on a user table
  that has a row with the empty user name: the cookie is present, \<open>get_user\<close> finds
  the row, and \<open>current_user\<close> returns no user.
\<close>

theorem current_user_resolution:
  "(cookies request SESSION_COOKIE = None \<or> cookies request SESSION_COOKIE = Some [] \<longrightarrow>
      current_user s request = Inr None) \<and>
   (cookies request SESSION_COOKIE = Some v \<and> v \<noteq> [] \<longrightarrow>
      current_user s request = get_user s v) \<and>
   (cookies request SESSION_COOKIE = Some (u_username row) \<and> u_username row \<noteq> [] \<and>
    row \<in> set (users_table s) \<and> username_unique (users_table s) \<and> pool_available s \<longrightarrow>
      current_user s request = Inr (Some row))"
  by (auto simp: current_user_def get_user_def get_connection_def username_unique_def
        find_key_distinct)

theorem current_user_resolution_witness:
  "cookies anonymous_request SESSION_COOKIE = None \<and>
   current_user demo_db anonymous_request = Inr None \<and>
   cookies (request_of []) SESSION_COOKIE = Some [] \<and>
   current_user demo_db (request_of []) = Inr None \<and>
   cookies (request_of ''mallory'') SESSION_COOKIE = Some ''mallory'' \<and>
   current_user demo_db (request_of ''mallory'') = get_user demo_db ''mallory'' \<and>
   cookies (request_of ''bob'') SESSION_COOKIE = Some (u_username bob) \<and>
   u_username bob \<noteq> [] \<and> bob \<in> set (users_table demo_db) \<and>
   username_unique (users_table demo_db) \<and> pool_available demo_db \<and>
   current_user demo_db (request_of ''bob'') = Inr (Some bob)"
proof -
  have c0: "cookies anonymous_request SESSION_COOKIE = None"
    and c1: "cookies (request_of []) SESSION_COOKIE = Some []"
    and c2: "cookies (request_of ''mallory'') SESSION_COOKIE = Some ''mallory''"
    and c3: "cookies (request_of ''bob'') SESSION_COOKIE = Some (u_username bob)"
    by (simp_all add: anonymous_request_def request_of_def bob_def)
  have b: "u_username bob \<noteq> []" "bob \<in> set (users_table demo_db)"
    "username_unique (users_table demo_db)" "pool_available demo_db"
    by (simp_all add: demo_defs username_unique_def)
  show ?thesis
    using current_user_resolution [of anonymous_request demo_db "[]" bob]
      current_user_resolution [of "request_of []" demo_db "[]" bob]
      current_user_resolution [of "request_of ''mallory''" demo_db "''mallory''" bob]
      current_user_resolution [of "request_of ''bob''" demo_db "''bob''" bob]
      c0 c1 c2 c3 b
    by simp
qed

theorem current_user_empty_cookie_counterexample:
  "cookies (request_of []) SESSION_COOKIE = Some [] \<and>
   get_user nameless_db [] =
     Inr (Some \<lparr>u_id = 1, u_username = [], u_password_hash = ''sha256:pw'', u_is_admin = True,
                u_created_at = ''2024-01-01 09:00:00''\<rparr>) \<and>
   current_user nameless_db (request_of []) = Inr None \<and>
   current_user nameless_db (request_of []) \<noteq> get_user nameless_db []"
  by (simp add: current_user_def get_user_def get_connection_def request_of_def nameless_db_def)

text \<open>
  C8. \<open>set_admin_flag\<close> raises HTTP 404 \<open>User not found.\<close> (the specification's
  NotFound) when no row has the user name; when the row exists and its flag already is
  the requested one, the call succeeds and the state is unchanged.
\<close>

theorem set_admin_flag_not_found_or_noop:
  "(get_user s username = Inr None \<longrightarrow>
      set_admin_flag s username is_admin = (Inl (HTTPException 404 ''User not found.''), s)) \<and>
   (get_user s username = Inr (Some row) \<and> u_is_admin row = is_admin \<longrightarrow>
      set_admin_flag s username is_admin = (Inr (), s))"
  by (auto simp: set_admin_flag_def get_user_def get_connection_def Let_def split: if_splits)

theorem set_admin_flag_not_found_or_noop_witness:
  "get_user demo_db ''mallory'' = Inr None \<and>
   set_admin_flag demo_db ''mallory'' True =
     (Inl (HTTPException 404 ''User not found.''), demo_db) \<and>
   get_user demo_db ''alice'' = Inr (Some alice) \<and> u_is_admin alice = True \<and>
   set_admin_flag demo_db ''alice'' True = (Inr (), demo_db) \<and>
   get_user demo_db ''bob'' = Inr (Some bob) \<and> u_is_admin bob = False \<and>
   set_admin_flag demo_db ''bob'' False = (Inr (), demo_db)"
proof -
  have gm: "get_user demo_db ''mallory'' = Inr None"
    and ga: "get_user demo_db ''alice'' = Inr (Some alice)"
    and gb: "get_user demo_db ''bob'' = Inr (Some bob)"
    by (simp_all add: get_user_def get_connection_def demo_defs)
  have fa: "u_is_admin alice = True" and fb: "u_is_admin bob = False"
    by (simp_all add: demo_defs)
  show ?thesis
    using set_admin_flag_not_found_or_noop [where s = demo_db and username = "''mallory''"
        and is_admin = True and row = alice]
      set_admin_flag_not_found_or_noop [where s = demo_db and username = "''alice''"
        and is_admin = True and row = alice]
      set_admin_flag_not_found_or_noop [where s = demo_db and username = "''bob''"
        and is_admin = False and row = bob]
      gm ga gb fa fb
    by simp
qed

text \<open>
  C9. While the database is reachable, \<open>delete_login_event\<close> never raises; for an id
  that no event has it leaves the state, so the events and their number, unchanged; and
  deleting an id a second time gives the outcome and state of deleting it once.
\<close>

theorem delete_login_event_idempotent:
  "pool_available s \<Longrightarrow>
   fst (delete_login_event s event_id) = Inr () \<and>
   (event_id \<notin> e_id ` set (login_events_table s) \<longrightarrow>
      delete_login_event s event_id = (Inr (), s)) \<and>
   delete_login_event (snd (delete_login_event s event_id)) event_id =
     delete_login_event s event_id"
proof -
  assume up: "pool_available s"
  have "filter (\<lambda>e. e_id e \<noteq> event_id) (login_events_table s) = login_events_table s"
    if "event_id \<notin> e_id ` set (login_events_table s)"
    using that by (auto simp: filter_id_conv)
  then show ?thesis
    using up
    by (auto simp: delete_login_event_def ensure_login_events_table_def get_connection_def)
qed

theorem delete_login_event_idempotent_witness:
  "pool_available demo_db \<and> 7 \<notin> e_id ` set (login_events_table demo_db) \<and>
   fst (delete_login_event demo_db 7) = Inr () \<and>
   delete_login_event demo_db 7 = (Inr (), demo_db) \<and>
   delete_login_event (snd (delete_login_event demo_db 1)) 1 = delete_login_event demo_db 1 \<and>
   login_events_table (snd (delete_login_event demo_db 1)) = []"
proof -
  have up: "pool_available demo_db"
    and ab: "7 \<notin> e_id ` set (login_events_table demo_db)"
    by (simp_all add: demo_defs)
  have gone: "login_events_table (snd (delete_login_event demo_db 1)) = []"
    by (simp add: delete_login_event_def ensure_login_events_table_def get_connection_def
          demo_defs)
  show ?thesis
    using delete_login_event_idempotent [OF up, of 7]
      delete_login_event_idempotent [OF up, of 1] up ab gone
    by simp
qed

text \<open>
  C10. Two failing logins on the same state, one for a user name that no row has and one
  for an existing user with a password whose hash differs from the stored one, have the
  same outcome: the 303 redirect to \<open>/login?error=Invalid%20credentials\<close>, no
  cookie, the state unchanged.
\<close>

theorem login_failures_identical:
  "get_user s absent_name = Inr None \<Longrightarrow>
   get_user s known_name = Inr (Some user) \<Longrightarrow>
   u_password_hash user \<noteq> hash_password wrong_password \<Longrightarrow>
   login hash_password s absent_name absent_password = login hash_password s known_name wrong_password \<and>
   login hash_password s absent_name absent_password =
     (RedirectResponse ''/login?error=Invalid%20credentials'' 303 NoCookie, s)"
  by (simp add: login_def)

theorem login_failures_identical_witness:
  "get_user demo_db ''mallory'' = Inr None \<and>
   get_user demo_db ''bob'' = Inr (Some bob) \<and>
   u_password_hash bob \<noteq> demo_hash ''guess'' \<and>
   login demo_hash demo_db ''mallory'' ''pw1'' = login demo_hash demo_db ''bob'' ''guess'' \<and>
   login demo_hash demo_db ''mallory'' ''pw1'' =
     (RedirectResponse ''/login?error=Invalid%20credentials'' 303 NoCookie, demo_db)"
proof -
  have gm: "get_user demo_db ''mallory'' = Inr None"
    by (simp add: get_user_def get_connection_def demo_defs)
  have gb: "get_user demo_db ''bob'' = Inr (Some bob)"
    by (simp add: get_user_def get_connection_def demo_defs)
  have w: "u_password_hash bob \<noteq> demo_hash ''guess''"
    by (simp add: demo_defs)
  note t = login_failures_identical [where hash_password = demo_hash
      and absent_password = "''pw1''" and wrong_password = "''guess''", OF gm gb w]
  show ?thesis
    using gm gb w t [THEN conjunct1] t [THEN conjunct2]
    by (intro conjI) assumption+
qed

end
